theory Spec2Isabelle
  imports Complex_Main
begin

section \<open>JavaScript values used by the adapters\<close>

text \<open>
  A JavaScript string is modelled as a \<^typ>\<open>string\<close>; one list element stands for one
  code unit, so \<^const>\<open>length\<close> is the source's \<^verbatim>\<open>.length\<close>. An optional value
  (\<^verbatim>\<open>undefined\<close> or \<^verbatim>\<open>null\<close>) is \<^const>\<open>None\<close>.
\<close>

text \<open>Truthiness of a string: only the empty string is falsy.\<close>

definition truthy :: "string \<Rightarrow> bool" where
  "truthy s = (s \<noteq> [])"

text \<open>Truthiness of \<^verbatim>\<open>string | undefined\<close>.\<close>

fun truthy_opt :: "string option \<Rightarrow> bool" where
  "truthy_opt None = False"
| "truthy_opt (Some s) = truthy s"

text \<open>\<^verbatim>\<open>x || undefined\<close> on \<^verbatim>\<open>string | undefined\<close>: a falsy value becomes undefined.\<close>

fun or_undefined :: "string option \<Rightarrow> string option" where
  "or_undefined None = None"
| "or_undefined (Some s) = (if truthy s then Some s else None)"

text \<open>\<^verbatim>\<open>x || d\<close> with a string default.\<close>

fun or_string :: "string option \<Rightarrow> string \<Rightarrow> string" where
  "or_string None d = d"
| "or_string (Some s) d = (if truthy s then s else d)"

text \<open>\<^verbatim>\<open>Array.prototype.join\<close>.\<close>

fun join :: "string \<Rightarrow> string list \<Rightarrow> string" where
  "join sep [] = []"
| "join sep [x] = x"
| "join sep (x # y # ys) = x @ sep @ join sep (y # ys)"

text \<open>\<^verbatim>\<open>String.prototype.includes\<close>: the argument occurs as a contiguous substring.\<close>

fun startsWith :: "string \<Rightarrow> string \<Rightarrow> bool" where
  "startsWith s [] = True"
| "startsWith [] (c # cs) = False"
| "startsWith (x # xs) (c # cs) = (x = c \<and> startsWith xs cs)"

fun js_includes :: "string \<Rightarrow> string \<Rightarrow> bool" where
  "js_includes [] sub = (sub = [])"
| "js_includes (x # xs) sub = (startsWith (x # xs) sub \<or> js_includes xs sub)"

section \<open>The canonical message model\<close>

text \<open>The members of \<^verbatim>\<open>FinishReason\<close> the adapters produce.\<close>

datatype FinishReason = STOP | MAX_TOKENS | SAFETY | OTHER

text \<open>
  A \<^verbatim>\<open>Part\<close> as the adapters read it: they look at \<^verbatim>\<open>part.text\<close> and at
  \<^verbatim>\<open>part.inlineData\<close> (with its \<^verbatim>\<open>mimeType\<close> and \<^verbatim>\<open>data\<close>) and at nothing else.
\<close>

record Blob =
  mimeType :: string
  blob_data :: string

record Part =
  part_text :: "string option"
  inlineData :: "Blob option"

text \<open>
  An element of the contents: a bare string, or an object of which the adapters read
  \<^verbatim>\<open>role\<close> and \<^verbatim>\<open>parts\<close>, either of which may be missing.
\<close>

datatype Content = ContentString string | Content "string option" "Part list option"

text \<open>\<^verbatim>\<open>ContentListUnion\<close>: one element or an array of them.\<close>

datatype ContentListUnion = Single Content | Array "Content list"

text \<open>Truthiness of a \<^verbatim>\<open>ContentListUnion\<close>: objects and arrays are truthy.\<close>

fun truthy_contents :: "ContentListUnion \<Rightarrow> bool" where
  "truthy_contents (Single (ContentString s)) = truthy s"
| "truthy_contents (Single (Content r ps)) = True"
| "truthy_contents (Array cs) = True"

record GenerateContentConfig =
  systemInstruction :: "ContentListUnion option"

record GenerateContentParameters =
  request_model :: string
  request_contents :: ContentListUnion
  request_config :: "GenerateContentConfig option"

record UsageMetadata =
  promptTokenCount :: nat
  candidatesTokenCount :: nat
  totalTokenCount :: nat

record Candidate =
  candidate_content :: Content
  finishReason :: "FinishReason option"
  candidate_index :: nat

record GenerateContentResponse =
  candidates :: "Candidate list"
  usageMetadata :: "UsageMetadata option"

section \<open>Finish-reason tables\<close>

text \<open>\<^verbatim>\<open>OpenAIAdapter.mapFinishReason\<close>: a \<^verbatim>\<open>switch\<close> on \<^verbatim>\<open>string | null\<close>.\<close>

definition openai_mapFinishReason :: "string option \<Rightarrow> FinishReason" where
  "openai_mapFinishReason reason =
     (if reason = Some ''stop'' then STOP
      else if reason = Some ''length'' then MAX_TOKENS
      else if reason = Some ''tool_calls'' then STOP
      else if reason = Some ''content_filter'' then SAFETY
      else OTHER)"

text \<open>\<^verbatim>\<open>AnthropicAdapter.mapFinishReason\<close>.\<close>

definition anthropic_mapFinishReason :: "string option \<Rightarrow> FinishReason" where
  "anthropic_mapFinishReason reason =
     (if reason = Some ''end_turn'' then STOP
      else if reason = Some ''max_tokens'' then MAX_TOKENS
      else if reason = Some ''stop_sequence'' then STOP
      else if reason = Some ''tool_use'' then STOP
      else OTHER)"

text \<open>\<^verbatim>\<open>MetaLlamaAdapter.mapFinishReason\<close>.\<close>

definition meta_mapFinishReason :: "string option \<Rightarrow> FinishReason" where
  "meta_mapFinishReason reason =
     (if reason = Some ''stop'' then STOP
      else if reason = Some ''length'' then MAX_TOKENS
      else if reason = Some ''content_filter'' then SAFETY
      else OTHER)"

text \<open>The \<^verbatim>\<open>case\<close> labels of each adapter's switch: its lookup table's keys.\<close>

definition openai_table :: "string list" where
  "openai_table = [''stop'', ''length'', ''tool_calls'', ''content_filter'']"

definition anthropic_table :: "string list" where
  "anthropic_table = [''end_turn'', ''max_tokens'', ''stop_sequence'', ''tool_use'']"

definition meta_table :: "string list" where
  "meta_table = [''stop'', ''length'', ''content_filter'']"

text \<open>Whether a provider signal (a string or null) is a key of a table.\<close>

fun in_table :: "string list \<Rightarrow> string option \<Rightarrow> bool" where
  "in_table t None = False"
| "in_table t (Some s) = (s \<in> set t)"

section \<open>Request translation\<close>

text \<open>
  \<^verbatim>\<open>extractTextFromContents\<close>, the same text in all three adapters. A string is
  returned as it is; an array maps each element to its text and joins with a blank;
  an object with \<^verbatim>\<open>parts\<close> joins the parts' texts; anything else is the empty string.
  \<^verbatim>\<open>part.text || ''\<close> is the text, or the empty string when it is missing.
\<close>

definition parts_text :: "Part list \<Rightarrow> string" where
  "parts_text ps = join '' '' (map (\<lambda>p. or_string (part_text p) []) ps)"

fun content_text :: "Content \<Rightarrow> string" where
  "content_text (ContentString s) = s"
| "content_text (Content r (Some ps)) = parts_text ps"
| "content_text (Content r None) = []"

fun extractTextFromContents :: "ContentListUnion \<Rightarrow> string" where
  "extractTextFromContents (Single (ContentString s)) = s"
| "extractTextFromContents (Array cs) = join '' '' (map content_text cs)"
| "extractTextFromContents (Single (Content r (Some ps))) = parts_text ps"
| "extractTextFromContents (Single (Content r None)) = []"

text \<open>\<^verbatim>\<open>normalizeContents\<close>, the same text in all three adapters.\<close>

fun normalizeContents :: "ContentListUnion \<Rightarrow> Content list" where
  "normalizeContents (Array cs) = cs"
| "normalizeContents (Single c) = [c]"

text \<open>\<^verbatim>\<open>content.parts || []\<close>.\<close>

fun parts_or_empty :: "Part list option \<Rightarrow> Part list" where
  "parts_or_empty None = []"
| "parts_or_empty (Some ps) = ps"

text \<open>A provider message: a role and a content of the provider's own type.\<close>

datatype 'c message = Message string 'c

subsection \<open>OpenAI\<close>

datatype ChatCompletionContentPart = TextPart string | ImageUrlPart string

datatype openai_content = OText string | OParts "ChatCompletionContentPart list"

text \<open>The body of the loop of \<^verbatim>\<open>convertGeminiPartsToOpenAI\<close>: what one part pushes.\<close>

definition openai_push :: "Part \<Rightarrow> ChatCompletionContentPart list" where
  "openai_push p =
     (if truthy_opt (part_text p) then [TextPart (the (part_text p))]
      else case inlineData p of
             Some d \<Rightarrow> [ImageUrlPart (''data:'' @ mimeType d @ '';base64,'' @ blob_data d)]
           | None \<Rightarrow> [])"

definition convertGeminiPartsToOpenAI :: "Part list \<Rightarrow> openai_content" where
  "convertGeminiPartsToOpenAI ps =
     (if length ps = 1 \<and> truthy_opt (part_text (hd ps)) then OText (the (part_text (hd ps)))
      else let contentParts = concat (map openai_push ps)
           in case contentParts of
                [TextPart t] \<Rightarrow> OText t
              | _ \<Rightarrow> OParts contentParts)"

definition openai_convertGeminiPartsToText :: "Part list \<Rightarrow> string" where
  "openai_convertGeminiPartsToText ps =
     join '' '' (map (\<lambda>p. if truthy_opt (part_text p) then the (part_text p)
                          else if inlineData p \<noteq> None then ''[Image data]''
                          else []) ps)"

text \<open>The synthesized leading system message of the OpenAI and Meta Llama adapters.\<close>

definition system_text :: "ContentListUnion \<Rightarrow> string" where
  "system_text si = (case si of Single (ContentString s) \<Rightarrow> s | _ \<Rightarrow> extractTextFromContents si)"

definition system_instruction_of :: "GenerateContentParameters \<Rightarrow> ContentListUnion option" where
  "system_instruction_of request =
     (case request_config request of
        None \<Rightarrow> None
      | Some c \<Rightarrow> (case systemInstruction c of
                    None \<Rightarrow> None
                  | Some si \<Rightarrow> if truthy_contents si then Some si else None))"

text \<open>The body of the loop over the normalized contents: what one element pushes.\<close>

fun openai_message_of :: "Content \<Rightarrow> openai_content message list" where
  "openai_message_of (ContentString s) = [Message ''user'' (OText s)]"
| "openai_message_of (Content r ps) =
     (if r = Some ''user'' then [Message ''user'' (convertGeminiPartsToOpenAI (parts_or_empty ps))]
      else if r = Some ''model''
        then [Message ''assistant'' (OText (openai_convertGeminiPartsToText (parts_or_empty ps)))]
      else [])"

text \<open>The first block of \<^verbatim>\<open>convertGeminiToOpenAIMessages\<close>: the system prompt, if present.\<close>

definition openai_system_messages ::
  "GenerateContentParameters \<Rightarrow> openai_content message list" where
  "openai_system_messages request =
     (case system_instruction_of request of
        None \<Rightarrow> []
      | Some si \<Rightarrow> [Message ''system'' (OText (system_text si))])"

definition openai_convertGeminiToOpenAIMessages ::
  "GenerateContentParameters \<Rightarrow> openai_content message list" where
  "openai_convertGeminiToOpenAIMessages request =
     openai_system_messages request
     @ (if truthy_contents (request_contents request)
        then concat (map openai_message_of (normalizeContents (request_contents request)))
        else [])"

subsection \<open>Anthropic\<close>

datatype TextBlockParam = TextBlockParam string

datatype anthropic_content = AText string | ABlocks "TextBlockParam list"

definition anthropic_push :: "Part \<Rightarrow> TextBlockParam list" where
  "anthropic_push p =
     (if truthy_opt (part_text p) then [TextBlockParam (the (part_text p))]
      else if inlineData p \<noteq> None
        then [TextBlockParam ''[Image content - not supported in this adapter]'']
      else [])"

definition convertGeminiPartsToAnthropic :: "Part list \<Rightarrow> anthropic_content" where
  "convertGeminiPartsToAnthropic ps =
     (if length ps = 1 \<and> truthy_opt (part_text (hd ps)) \<and> inlineData (hd ps) = None
      then AText (the (part_text (hd ps)))
      else let contentBlocks = concat (map anthropic_push ps)
           in case contentBlocks of
                [TextBlockParam t] \<Rightarrow> AText t
              | _ \<Rightarrow> ABlocks contentBlocks)"

fun anthropic_message_of :: "Content \<Rightarrow> anthropic_content message list" where
  "anthropic_message_of (ContentString s) = [Message ''user'' (AText s)]"
| "anthropic_message_of (Content r ps) =
     (if r = Some ''user''
        then [Message ''user'' (convertGeminiPartsToAnthropic (parts_or_empty ps))]
      else if r = Some ''model''
        then [Message ''assistant'' (convertGeminiPartsToAnthropic (parts_or_empty ps))]
      else [])"

definition convertGeminiToAnthropicMessages ::
  "GenerateContentParameters \<Rightarrow> anthropic_content message list" where
  "convertGeminiToAnthropicMessages request =
     (if truthy_contents (request_contents request)
      then concat (map anthropic_message_of (normalizeContents (request_contents request)))
      else [])"

text \<open>
  \<^verbatim>\<open>extractSystemPrompt\<close>: the dedicated system field of the Anthropic call. An
  instruction that is not a string is wrapped in a one-element array first; when it is
  itself an array, that element has no \<^verbatim>\<open>parts\<close> and its text is empty.
\<close>

definition extractSystemPrompt :: "GenerateContentParameters \<Rightarrow> string option" where
  "extractSystemPrompt request =
     (case system_instruction_of request of
        None \<Rightarrow> None
      | Some (Single (ContentString s)) \<Rightarrow> Some s
      | Some (Single c) \<Rightarrow> Some (extractTextFromContents (Array [c]))
      | Some (Array cs) \<Rightarrow> Some [])"

subsection \<open>Meta Llama\<close>

definition meta_convertGeminiPartsToText :: "Part list \<Rightarrow> string" where
  "meta_convertGeminiPartsToText ps =
     join '' '' (map (\<lambda>p. if truthy_opt (part_text p) then the (part_text p)
                          else if inlineData p \<noteq> None
                            then ''[Image data not supported by this provider]''
                          else []) ps)"

fun meta_message_of :: "Content \<Rightarrow> string message list" where
  "meta_message_of (ContentString s) = [Message ''user'' s]"
| "meta_message_of (Content r ps) =
     (if r = Some ''user'' then [Message ''user'' (meta_convertGeminiPartsToText (parts_or_empty ps))]
      else if r = Some ''model''
        then [Message ''assistant'' (meta_convertGeminiPartsToText (parts_or_empty ps))]
      else [])"

definition meta_system_messages :: "GenerateContentParameters \<Rightarrow> string message list" where
  "meta_system_messages request =
     (case system_instruction_of request of
        None \<Rightarrow> []
      | Some si \<Rightarrow> [Message ''system'' (system_text si)])"

definition meta_convertGeminiToOpenAIMessages ::
  "GenerateContentParameters \<Rightarrow> string message list" where
  "meta_convertGeminiToOpenAIMessages request =
     meta_system_messages request
     @ (if truthy_contents (request_contents request)
        then concat (map meta_message_of (normalizeContents (request_contents request)))
        else [])"

section \<open>Token estimates\<close>

text \<open>
  \<^verbatim>\<open>Math.ceil(text.length / c)\<close>. The quotient is taken in the rationals. The
  source divides in double precision, where a length divided by 4 is exact and a
  length divided by 3.5 is an integer or at least a seventh away from one, so that
  rounding the quotient does not change its ceiling (lemmas
  \<open>countTokens_rounding_4\<close> and \<open>countTokens_rounding_3_5\<close> below).
\<close>

record CountTokensResponse =
  totalTokens :: int

definition openai_countTokens :: "ContentListUnion \<Rightarrow> CountTokensResponse" where
  "openai_countTokens contents =
     (let text = extractTextFromContents contents;
          estimatedTokens = \<lceil>(of_nat (length text) :: rat) / 4\<rceil>
      in \<lparr>totalTokens = estimatedTokens\<rparr>)"

definition anthropic_countTokens :: "ContentListUnion \<Rightarrow> CountTokensResponse" where
  "anthropic_countTokens contents =
     (let text = extractTextFromContents contents;
          estimatedTokens = \<lceil>(of_nat (length text) :: rat) / 3.5\<rceil>
      in \<lparr>totalTokens = estimatedTokens\<rparr>)"

definition meta_countTokens :: "ContentListUnion \<Rightarrow> CountTokensResponse" where
  "meta_countTokens contents =
     (let text = extractTextFromContents contents;
          estimatedTokens = \<lceil>(of_nat (length text) :: rat) / 4\<rceil>
      in \<lparr>totalTokens = estimatedTokens\<rparr>)"

section \<open>Response translation\<close>

text \<open>The content of every translated candidate: one text part, role \<^verbatim>\<open>model\<close>.\<close>

definition model_content :: "string \<Rightarrow> Content" where
  "model_content t = Content (Some ''model'') (Some [\<lparr>part_text = Some t, inlineData = None\<rparr>])"

subsection \<open>OpenAI and Meta Llama: chat completions\<close>

text \<open>
  \<^verbatim>\<open>OpenAI.Chat.ChatCompletion\<close> as the adapters read it: \<^verbatim>\<open>usage\<close> may be
  missing, and each of its three counters is guarded on its own, so each may be
  missing too. The message content may be null.
\<close>

record CompletionUsage =
  prompt_tokens :: "nat option"
  completion_tokens :: "nat option"
  total_tokens :: "nat option"

record ChatCompletionChoice =
  message_content :: "string option"
  finish_reason :: "string option"

record ChatCompletion =
  choices :: "ChatCompletionChoice list"
  usage :: "CompletionUsage option"

text \<open>\<^verbatim>\<open>x || 0\<close> on \<^verbatim>\<open>number | undefined\<close>: a missing counter, and the counter 0, give 0.\<close>

fun or_zero :: "nat option \<Rightarrow> nat" where
  "or_zero None = 0"
| "or_zero (Some n) = n"

text \<open>\<^verbatim>\<open>response.usage?.field || 0\<close>.\<close>

fun usage_or_zero :: "CompletionUsage option \<Rightarrow> (CompletionUsage \<Rightarrow> nat option) \<Rightarrow> nat" where
  "usage_or_zero None field = 0"
| "usage_or_zero (Some u) field = or_zero (field u)"

text \<open>
  \<^verbatim>\<open>convertOpenAIToGeminiResponse\<close>. With no first choice, reading
  \<^verbatim>\<open>choice.message\<close> is a TypeError: the result \<^const>\<open>None\<close>.
\<close>

definition chat_completion_to_gemini ::
  "(string option \<Rightarrow> FinishReason) \<Rightarrow> ChatCompletion \<Rightarrow> GenerateContentResponse option" where
  "chat_completion_to_gemini mapFinishReason response =
     (case choices response of
        [] \<Rightarrow> None
      | choice # _ \<Rightarrow>
          Some \<lparr>candidates =
                  [\<lparr>candidate_content = model_content (or_string (message_content choice) []),
                    finishReason = Some (mapFinishReason (finish_reason choice)),
                    candidate_index = 0\<rparr>],
                usageMetadata =
                  Some \<lparr>promptTokenCount = usage_or_zero (usage response) prompt_tokens,
                        candidatesTokenCount = usage_or_zero (usage response) completion_tokens,
                        totalTokenCount = usage_or_zero (usage response) total_tokens\<rparr>\<rparr>)"

definition openai_convertOpenAIToGeminiResponse ::
  "ChatCompletion \<Rightarrow> GenerateContentResponse option" where
  "openai_convertOpenAIToGeminiResponse = chat_completion_to_gemini openai_mapFinishReason"

definition meta_convertOpenAIToGeminiResponse ::
  "ChatCompletion \<Rightarrow> GenerateContentResponse option" where
  "meta_convertOpenAIToGeminiResponse = chat_completion_to_gemini meta_mapFinishReason"

subsection \<open>Anthropic: messages\<close>

text \<open>
  \<^verbatim>\<open>Anthropic.Message\<close>: a list of content blocks, of which the adapter keeps the text
  blocks, a stop reason, and a usage object that is always there, with two counters.
\<close>

datatype ContentBlock = TextBlock string | OtherBlock string

record AnthropicUsage =
  input_tokens :: nat
  output_tokens :: nat

record AnthropicMessage =
  message_blocks :: "ContentBlock list"
  stop_reason :: "string option"
  message_usage :: AnthropicUsage

fun text_of_block :: "ContentBlock \<Rightarrow> string list" where
  "text_of_block (TextBlock t) = [t]"
| "text_of_block (OtherBlock ty) = []"

definition convertAnthropicToGeminiResponse :: "AnthropicMessage \<Rightarrow> GenerateContentResponse" where
  "convertAnthropicToGeminiResponse response =
     (let textContent = join [] (concat (map text_of_block (message_blocks response)))
      in \<lparr>candidates =
            [\<lparr>candidate_content = model_content textContent,
              finishReason = Some (anthropic_mapFinishReason (stop_reason response)),
              candidate_index = 0\<rparr>],
          usageMetadata =
            Some \<lparr>promptTokenCount = input_tokens (message_usage response),
                  candidatesTokenCount = output_tokens (message_usage response),
                  totalTokenCount = input_tokens (message_usage response)
                                    + output_tokens (message_usage response)\<rparr>\<rparr>)"

section \<open>Streaming\<close>

text \<open>
  An asynchronous generator that ends: it is done, or yields an element and goes on,
  or throws. The provider's stream is one, and so is the adapter's.
\<close>

datatype 'a gen = Done | Yield 'a "'a gen" | Throw string

fun yielded :: "'a gen \<Rightarrow> 'a list" where
  "yielded Done = []"
| "yielded (Yield x g) = x # yielded g"
| "yielded (Throw e) = []"

fun thrown :: "'a gen \<Rightarrow> string option" where
  "thrown Done = None"
| "thrown (Yield x g) = thrown g"
| "thrown (Throw e) = Some e"

subsection \<open>OpenAI and Meta Llama: chat completion chunks\<close>

record ChunkDelta =
  delta_content :: "string option"

record ChunkChoice =
  delta :: "ChunkDelta option"
  chunk_finish_reason :: "string option"

record ChatCompletionChunk =
  chunk_choices :: "ChunkChoice list"

text \<open>The guard of the loop: \<^verbatim>\<open>chunk.choices[0]?.delta\<close>.\<close>

definition has_delta :: "ChatCompletionChunk \<Rightarrow> bool" where
  "has_delta chunk = (case chunk_choices chunk of [] \<Rightarrow> False | choice # _ \<Rightarrow> delta choice \<noteq> None)"

text \<open>
  \<^verbatim>\<open>convertOpenAIStreamChunkToGemini\<close>. Reading \<^verbatim>\<open>choice.delta.content\<close> with no
  first choice or no delta is a TypeError: the result \<^const>\<open>None\<close>.
\<close>

definition chunk_to_gemini ::
  "(string option \<Rightarrow> FinishReason) \<Rightarrow> ChatCompletionChunk \<Rightarrow> GenerateContentResponse option" where
  "chunk_to_gemini mapFinishReason chunk =
     (case chunk_choices chunk of
        [] \<Rightarrow> None
      | choice # _ \<Rightarrow>
          (case delta choice of
             None \<Rightarrow> None
           | Some d \<Rightarrow>
               Some \<lparr>candidates =
                       [\<lparr>candidate_content = model_content (or_string (delta_content d) []),
                         finishReason =
                           (if truthy_opt (chunk_finish_reason choice)
                            then Some (mapFinishReason (chunk_finish_reason choice))
                            else None),
                         candidate_index = 0\<rparr>],
                     usageMetadata = None\<rparr>))"

text \<open>
  The generator's body, after the call that opens the stream: the \<^verbatim>\<open>for await\<close> loop
  inside \<^verbatim>\<open>try\<close>, whose \<^verbatim>\<open>catch\<close> rethrows with the provider's name in front.
\<close>

fun chat_stream ::
  "string \<Rightarrow> (string option \<Rightarrow> FinishReason) \<Rightarrow> ChatCompletionChunk gen
     \<Rightarrow> GenerateContentResponse gen" where
  "chat_stream name mapFinishReason Done = Done"
| "chat_stream name mapFinishReason (Throw e) = Throw (name @ '' API error: '' @ e)"
| "chat_stream name mapFinishReason (Yield chunk rest) =
     (if has_delta chunk
      then (case chunk_to_gemini mapFinishReason chunk of
              Some r \<Rightarrow> Yield r (chat_stream name mapFinishReason rest)
            | None \<Rightarrow> Throw (name @ '' API error: TypeError''))
      else chat_stream name mapFinishReason rest)"

text \<open>
  \<^verbatim>\<open>generateContentStream\<close>: the client is called with the model and the translated
  messages (and generation parameters that are passed through as they are), and its
  stream is translated chunk by chunk.
\<close>

definition openai_generateContentStream ::
  "(string \<Rightarrow> openai_content message list \<Rightarrow> ChatCompletionChunk gen)
     \<Rightarrow> GenerateContentParameters \<Rightarrow> GenerateContentResponse gen" where
  "openai_generateContentStream client request =
     chat_stream ''OpenAI'' openai_mapFinishReason
       (client (or_string (Some (request_model request)) ''gpt-4o'')
               (openai_convertGeminiToOpenAIMessages request))"

definition meta_generateContentStream ::
  "(string \<Rightarrow> string message list \<Rightarrow> ChatCompletionChunk gen)
     \<Rightarrow> GenerateContentParameters \<Rightarrow> GenerateContentResponse gen" where
  "meta_generateContentStream client request =
     chat_stream ''Meta Llama'' meta_mapFinishReason
       (client (or_string (Some (request_model request)) ''meta-llama/Llama-3.1-70B-Instruct-Turbo'')
               (meta_convertGeminiToOpenAIMessages request))"

subsection \<open>Anthropic: message stream events\<close>

datatype AnthropicDelta = TextDelta string | InputJsonDelta string

datatype RawMessageStreamEvent =
    MessageStart
  | ContentBlockStart
  | ContentBlockDelta AnthropicDelta
  | ContentBlockStop
  | MessageDelta "string option"
  | MessageStop

text \<open>The guard: a \<^verbatim>\<open>content_block_delta\<close> whose delta is a \<^verbatim>\<open>text_delta\<close>.\<close>

fun is_text_delta :: "RawMessageStreamEvent \<Rightarrow> bool" where
  "is_text_delta (ContentBlockDelta (TextDelta t)) = True"
| "is_text_delta e = False"

text \<open>\<^verbatim>\<open>chunk.delta?.text\<close>.\<close>

fun delta_text :: "RawMessageStreamEvent \<Rightarrow> string option" where
  "delta_text (ContentBlockDelta (TextDelta t)) = Some t"
| "delta_text e = None"

text \<open>\<^verbatim>\<open>convertAnthropicStreamChunkToGemini\<close>: the candidate is built without a finish reason.\<close>

definition convertAnthropicStreamChunkToGemini ::
  "RawMessageStreamEvent \<Rightarrow> GenerateContentResponse" where
  "convertAnthropicStreamChunkToGemini chunk =
     \<lparr>candidates =
        [\<lparr>candidate_content = model_content (or_string (delta_text chunk) []),
          finishReason = None,
          candidate_index = 0\<rparr>],
      usageMetadata = None\<rparr>"

fun anthropic_stream :: "RawMessageStreamEvent gen \<Rightarrow> GenerateContentResponse gen" where
  "anthropic_stream Done = Done"
| "anthropic_stream (Throw e) = Throw (''Anthropic API error: '' @ e)"
| "anthropic_stream (Yield chunk rest) =
     (if is_text_delta chunk
      then Yield (convertAnthropicStreamChunkToGemini chunk) (anthropic_stream rest)
      else anthropic_stream rest)"

definition anthropic_generateContentStream ::
  "(string \<Rightarrow> anthropic_content message list \<Rightarrow> string option \<Rightarrow> RawMessageStreamEvent gen)
     \<Rightarrow> GenerateContentParameters \<Rightarrow> GenerateContentResponse gen" where
  "anthropic_generateContentStream client request =
     anthropic_stream
       (client (or_string (Some (request_model request)) ''claude-3-5-sonnet-20241022'')
               (convertGeminiToAnthropicMessages request)
               (extractSystemPrompt request))"

section \<open>Configuration resolution\<close>

datatype AuthType =
    LOGIN_WITH_GOOGLE
  | USE_GEMINI
  | USE_VERTEX_AI
  | CLOUD_SHELL
  | USE_OPENAI
  | USE_ANTHROPIC
  | USE_META_LLAMA

datatype Provider = Google | OpenAI | Anthropic | Meta

record ContentGeneratorConfig =
  model :: string
  apiKey :: "string option"
  vertexai :: "bool option"
  authType :: "AuthType option"
  proxy :: "string option"
  provider :: "Provider option"

text \<open>What the resolver asks of the session's \<^verbatim>\<open>Config\<close>.\<close>

record Config =
  getModel :: string
  getProxy :: "string option"

text \<open>The process environment: a variable is set to a string, or is not set.\<close>

type_synonym env = "string \<Rightarrow> string option"

text \<open>
  The resolver returns the configuration. In the Gemini key mode it also starts
  \<^verbatim>\<open>getEffectiveModel\<close> with the key, the model and the proxy, and does not wait for
  it; the calls it starts are returned beside the configuration.
\<close>

record resolution =
  resolved :: ContentGeneratorConfig
  model_checks :: "(string \<times> string \<times> string option) list"

text \<open>
  \<^verbatim>\<open>createContentGeneratorConfig\<close>. \<^verbatim>\<open>DEFAULT_GEMINI_MODEL\<close> is imported from
  another module and is a parameter here; so is the environment.
\<close>

definition createContentGeneratorConfig ::
  "string \<Rightarrow> env \<Rightarrow> Config \<Rightarrow> AuthType option \<Rightarrow> resolution" where
  "createContentGeneratorConfig DEFAULT_GEMINI_MODEL environment config auth =
     (let geminiApiKey = or_undefined (environment ''GEMINI_API_KEY'');
          googleApiKey = or_undefined (environment ''GOOGLE_API_KEY'');
          openaiApiKey = or_undefined (environment ''OPENAI_API_KEY'');
          anthropicApiKey = or_undefined (environment ''ANTHROPIC_API_KEY'');
          metaApiKey = (case or_undefined (environment ''META_API_KEY'') of
                          Some k \<Rightarrow> Some k
                        | None \<Rightarrow> or_undefined (environment ''LLAMA_API_KEY''));
          googleCloudProject = or_undefined (environment ''GOOGLE_CLOUD_PROJECT'');
          googleCloudLocation = or_undefined (environment ''GOOGLE_CLOUD_LOCATION'');
          effectiveModel = or_string (Some (getModel config)) DEFAULT_GEMINI_MODEL;
          contentGeneratorConfig =
            \<lparr>model = effectiveModel, apiKey = None, vertexai = None, authType = auth,
             proxy = getProxy config, provider = None\<rparr>
      in if auth = Some LOGIN_WITH_GOOGLE \<or> auth = Some CLOUD_SHELL then
           \<lparr>resolved = contentGeneratorConfig\<lparr>provider := Some Google\<rparr>, model_checks = []\<rparr>
         else if auth = Some USE_GEMINI \<and> truthy_opt geminiApiKey then
           \<lparr>resolved = contentGeneratorConfig
                          \<lparr>apiKey := geminiApiKey, vertexai := Some False, provider := Some Google\<rparr>,
            model_checks = [(the geminiApiKey, effectiveModel, getProxy config)]\<rparr>
         else if auth = Some USE_VERTEX_AI
                 \<and> (truthy_opt googleApiKey
                      \<or> (truthy_opt googleCloudProject \<and> truthy_opt googleCloudLocation)) then
           \<lparr>resolved = contentGeneratorConfig
                          \<lparr>apiKey := googleApiKey, vertexai := Some True, provider := Some Google\<rparr>,
            model_checks = []\<rparr>
         else if auth = Some USE_OPENAI \<and> truthy_opt openaiApiKey then
           \<lparr>resolved = contentGeneratorConfig
                          \<lparr>apiKey := openaiApiKey, provider := Some OpenAI,
                           model := (if js_includes effectiveModel ''gemini'' then ''gpt-4o''
                                     else effectiveModel)\<rparr>,
            model_checks = []\<rparr>
         else if auth = Some USE_ANTHROPIC \<and> truthy_opt anthropicApiKey then
           \<lparr>resolved = contentGeneratorConfig
                          \<lparr>apiKey := anthropicApiKey, provider := Some Anthropic,
                           model := (if js_includes effectiveModel ''gemini''
                                     then ''claude-3-5-sonnet-20241022''
                                     else effectiveModel)\<rparr>,
            model_checks = []\<rparr>
         else if auth = Some USE_META_LLAMA \<and> truthy_opt metaApiKey then
           \<lparr>resolved = contentGeneratorConfig
                          \<lparr>apiKey := metaApiKey, provider := Some Meta,
                           model := (if js_includes effectiveModel ''gemini''
                                     then ''llama-3.1-70b-instruct''
                                     else effectiveModel)\<rparr>,
            model_checks = []\<rparr>
         else \<lparr>resolved = contentGeneratorConfig, model_checks = []\<rparr>)"

section \<open>The generator factory\<close>

text \<open>
  What the factory returns: the code-assist generator of the collaborator, the native
  client's \<^verbatim>\<open>models\<close> (its key, its deployment flag and its headers), or one of the
  three adapters with the arguments of its constructor.
\<close>

datatype ContentGenerator =
    CodeAssistGenerator
  | GoogleGenAIModels "string option" "bool option" string
  | OpenAIAdapter string "string option"
  | AnthropicAdapter string
  | MetaLlamaAdapter string string

record process_info =
  CLI_VERSION :: "string option"
  process_version :: string
  process_platform :: string
  process_arch :: string

definition user_agent :: "process_info \<Rightarrow> string" where
  "user_agent p =
     ''GeminiCLI/'' @ or_string (CLI_VERSION p) (process_version p)
       @ '' ('' @ process_platform p @ ''; '' @ process_arch p @ '')''"

text \<open>\<^verbatim>\<open>`${config.authType}`\<close> in the last error's message.\<close>

fun authType_string :: "AuthType option \<Rightarrow> string" where
  "authType_string None = ''undefined''"
| "authType_string (Some LOGIN_WITH_GOOGLE) = ''oauth-personal''"
| "authType_string (Some USE_GEMINI) = ''gemini-api-key''"
| "authType_string (Some USE_VERTEX_AI) = ''vertex-ai''"
| "authType_string (Some CLOUD_SHELL) = ''cloud-shell''"
| "authType_string (Some USE_OPENAI) = ''openai-api-key''"
| "authType_string (Some USE_ANTHROPIC) = ''anthropic-api-key''"
| "authType_string (Some USE_META_LLAMA) = ''meta-llama-api-key''"

text \<open>
  \<^verbatim>\<open>createContentGenerator\<close>. A thrown \<^verbatim>\<open>Error\<close> is \<^const>\<open>Inl\<close> of its message.
  \<^verbatim>\<open>createCodeAssistContentGenerator\<close> belongs to another module: it is a
  parameter, and may itself fail.
\<close>

definition createContentGenerator ::
  "(AuthType \<Rightarrow> string + ContentGenerator) \<Rightarrow> process_info \<Rightarrow> ContentGeneratorConfig
     \<Rightarrow> string + ContentGenerator" where
  "createContentGenerator createCodeAssistContentGenerator process config =
     (if authType config = Some LOGIN_WITH_GOOGLE \<or> authType config = Some CLOUD_SHELL then
        createCodeAssistContentGenerator (the (authType config))
      else if authType config = Some USE_GEMINI \<or> authType config = Some USE_VERTEX_AI then
        Inr (GoogleGenAIModels (if apiKey config = Some [] then None else apiKey config)
               (vertexai config) (user_agent process))
      else if authType config = Some USE_OPENAI then
        (if truthy_opt (apiKey config) then Inr (OpenAIAdapter (the (apiKey config)) (proxy config))
         else Inl ''OpenAI API key is required but not provided'')
      else if authType config = Some USE_ANTHROPIC then
        (if truthy_opt (apiKey config) then Inr (AnthropicAdapter (the (apiKey config)))
         else Inl ''Anthropic API key is required but not provided'')
      else if authType config = Some USE_META_LLAMA then
        (if truthy_opt (apiKey config)
         then Inr (MetaLlamaAdapter (the (apiKey config))
                     (or_string (proxy config) ''https://api.together.xyz/v1''))
         else Inl ''Meta Llama API key is required but not provided'')
      else Inl (''Error creating contentGenerator: Unsupported authType: ''
                @ authType_string (authType config)))"

section \<open>Observations used in the statements\<close>

text \<open>The provider role a canonical role is mapped to.\<close>

definition provider_role :: "string \<Rightarrow> string" where
  "provider_role r = (if r = ''user'' then ''user'' else ''assistant'')"

text \<open>The data URL of the image block the OpenAI adapter builds for inline data.\<close>

definition data_url :: "Blob \<Rightarrow> string" where
  "data_url d = ''data:'' @ mimeType d @ '';base64,'' @ blob_data d"

text \<open>
  A translated content carries an inline-data part: as the provider's image block, or
  as the adapter's placeholder text.
\<close>

fun openai_carries :: "openai_content \<Rightarrow> Blob \<Rightarrow> bool" where
  "openai_carries (OParts bs) d = (ImageUrlPart (data_url d) \<in> set bs)"
| "openai_carries (OText s) d = js_includes s ''[Image data]''"

fun anthropic_carries :: "anthropic_content \<Rightarrow> bool" where
  "anthropic_carries (ABlocks bs) =
     (TextBlockParam ''[Image content - not supported in this adapter]'' \<in> set bs)"
| "anthropic_carries (AText s) = js_includes s ''[Image content - not supported in this adapter]''"

definition meta_carries :: "string \<Rightarrow> bool" where
  "meta_carries s = js_includes s ''[Image data not supported by this provider]''"

text \<open>The text and the finish reason of a partial response's first candidate.\<close>

definition response_text :: "GenerateContentResponse \<Rightarrow> string option" where
  "response_text r =
     (case candidates r of
        [] \<Rightarrow> None
      | c # _ \<Rightarrow> (case candidate_content c of
                    Content role (Some [p]) \<Rightarrow> part_text p
                  | _ \<Rightarrow> None))"

definition response_finishReason :: "GenerateContentResponse \<Rightarrow> FinishReason option" where
  "response_finishReason r = (case candidates r of [] \<Rightarrow> None | c # _ \<Rightarrow> finishReason c)"

text \<open>A provider stream that yields the elements of a list and ends.\<close>

fun of_list :: "'a list \<Rightarrow> 'a gen" where
  "of_list [] = Done"
| "of_list (x # xs) = Yield x (of_list xs)"

text \<open>A chat completion chunk whose first choice carries a text delta and a finish reason.\<close>

definition text_event :: "string \<Rightarrow> string option \<Rightarrow> ChatCompletionChunk" where
  "text_event t fr =
     \<lparr>chunk_choices = [\<lparr>delta = Some \<lparr>delta_content = Some t\<rparr>, chunk_finish_reason = fr\<rparr>]\<rparr>"

text \<open>A partial response with one text part and an optional finish reason.\<close>

definition partial_response :: "string \<Rightarrow> FinishReason option \<Rightarrow> GenerateContentResponse" where
  "partial_response t fr =
     \<lparr>candidates = [\<lparr>candidate_content = model_content t, finishReason = fr, candidate_index = 0\<rparr>],
      usageMetadata = None\<rparr>"

text \<open>
  The provider a requested mode implies, and the environment variables that hold that
  provider's credentials (for the native provider: its two keys and the project and
  location of its deployment variant).
\<close>

fun provider_of_mode :: "AuthType option \<Rightarrow> Provider option" where
  "provider_of_mode None = None"
| "provider_of_mode (Some LOGIN_WITH_GOOGLE) = Some Google"
| "provider_of_mode (Some USE_GEMINI) = Some Google"
| "provider_of_mode (Some USE_VERTEX_AI) = Some Google"
| "provider_of_mode (Some CLOUD_SHELL) = Some Google"
| "provider_of_mode (Some USE_OPENAI) = Some OpenAI"
| "provider_of_mode (Some USE_ANTHROPIC) = Some Anthropic"
| "provider_of_mode (Some USE_META_LLAMA) = Some Meta"

fun credential_variables :: "Provider option \<Rightarrow> string list" where
  "credential_variables None = []"
| "credential_variables (Some Google) =
     [''GEMINI_API_KEY'', ''GOOGLE_API_KEY'', ''GOOGLE_CLOUD_PROJECT'', ''GOOGLE_CLOUD_LOCATION'']"
| "credential_variables (Some OpenAI) = [''OPENAI_API_KEY'']"
| "credential_variables (Some Anthropic) = [''ANTHROPIC_API_KEY'']"
| "credential_variables (Some Meta) = [''META_API_KEY'', ''LLAMA_API_KEY'']"

text \<open>Two environments agree on the listed variables.\<close>

definition agree_on :: "string list \<Rightarrow> env \<Rightarrow> env \<Rightarrow> bool" where
  "agree_on vs e1 e2 = list_all (\<lambda>v. e1 v = e2 v) vs"

section \<open>Facts about the string helpers\<close>

lemma startsWith_iff: "startsWith s sub \<longleftrightarrow> (\<exists>q. s = sub @ q)"
  by (induction s sub rule: startsWith.induct) auto

lemma js_includes_iff: "js_includes s sub \<longleftrightarrow> (\<exists>p q. s = p @ sub @ q)"
proof (induction s)
  case Nil
  then show ?case by auto
next
  case (Cons x xs)
  have "(\<exists>p q. x # xs = p @ sub @ q) \<longleftrightarrow> (\<exists>q. x # xs = sub @ q) \<or> (\<exists>p q. xs = p @ sub @ q)"
  proof
    assume "\<exists>p q. x # xs = p @ sub @ q"
    then obtain p q where pq: "x # xs = p @ sub @ q" by blast
    show "(\<exists>q. x # xs = sub @ q) \<or> (\<exists>p q. xs = p @ sub @ q)"
    proof (cases p)
      case Nil
      with pq show ?thesis by auto
    next
      case (Cons a p')
      with pq have "xs = p' @ sub @ q" by simp
      then show ?thesis by blast
    qed
  next
    assume "(\<exists>q. x # xs = sub @ q) \<or> (\<exists>p q. xs = p @ sub @ q)"
    then show "\<exists>p q. x # xs = p @ sub @ q"
    proof
      assume "\<exists>q. x # xs = sub @ q"
      then obtain q where "x # xs = [] @ sub @ q" by auto
      then show ?thesis by blast
    next
      assume "\<exists>p q. xs = p @ sub @ q"
      then obtain p q where "xs = p @ sub @ q" by blast
      then have "x # xs = (x # p) @ sub @ q" by simp
      then show ?thesis by blast
    qed
  qed
  with Cons show ?case by (simp add: startsWith_iff)
qed

lemma join_member: "x \<in> set xs \<Longrightarrow> \<exists>p q. join sep xs = p @ x @ q"
proof (induction sep xs rule: join.induct)
  case (1 sep)
  then show ?case by simp
next
  case (2 sep y)
  then have "join sep [y] = [] @ x @ []" by simp
  then show ?case by blast
next
  case (3 sep a b ys)
  show ?case
  proof (cases "x = a")
    case True
    then have "join sep (a # b # ys) = [] @ x @ (sep @ join sep (b # ys))" by simp
    then show ?thesis by blast
  next
    case False
    with 3 have "x \<in> set (b # ys)" by simp
    with 3 obtain p q where "join sep (b # ys) = p @ x @ q" by blast
    then have "join sep (a # b # ys) = (a @ sep @ p) @ x @ q" by simp
    then show ?thesis by blast
  qed
qed

lemma join_includes: "x \<in> set xs \<Longrightarrow> js_includes (join sep xs) x"
  by (simp add: js_includes_iff join_member)

section \<open>Properties of the finish-reason tables\<close>

text \<open>
  C2. Each adapter maps the keys of its own lookup table as documented: the natural
  end of a turn (\<^verbatim>\<open>stop\<close>, \<^verbatim>\<open>end_turn\<close>), a stop sequence (\<^verbatim>\<open>stop_sequence\<close>) and a
  tool invocation (\<^verbatim>\<open>tool_calls\<close>, \<^verbatim>\<open>tool_use\<close>) to STOP, the length cutoff
  (\<^verbatim>\<open>length\<close>, \<^verbatim>\<open>max_tokens\<close>) to MAX_TOKENS, the content filter
  (\<^verbatim>\<open>content_filter\<close>) to SAFETY; and every signal that is not a key of the adapter's
  table, null included, to OTHER.
\<close>

theorem finish_reason_tables:
  "openai_mapFinishReason (Some ''stop'') = STOP
   \<and> openai_mapFinishReason (Some ''tool_calls'') = STOP
   \<and> openai_mapFinishReason (Some ''length'') = MAX_TOKENS
   \<and> openai_mapFinishReason (Some ''content_filter'') = SAFETY
   \<and> anthropic_mapFinishReason (Some ''end_turn'') = STOP
   \<and> anthropic_mapFinishReason (Some ''stop_sequence'') = STOP
   \<and> anthropic_mapFinishReason (Some ''tool_use'') = STOP
   \<and> anthropic_mapFinishReason (Some ''max_tokens'') = MAX_TOKENS
   \<and> meta_mapFinishReason (Some ''stop'') = STOP
   \<and> meta_mapFinishReason (Some ''length'') = MAX_TOKENS
   \<and> meta_mapFinishReason (Some ''content_filter'') = SAFETY
   \<and> (\<not> in_table openai_table reason \<longrightarrow> openai_mapFinishReason reason = OTHER)
   \<and> (\<not> in_table anthropic_table reason \<longrightarrow> anthropic_mapFinishReason reason = OTHER)
   \<and> (\<not> in_table meta_table reason \<longrightarrow> meta_mapFinishReason reason = OTHER)"
  by (cases reason)
     (simp_all add: openai_mapFinishReason_def anthropic_mapFinishReason_def
        meta_mapFinishReason_def openai_table_def anthropic_table_def meta_table_def)

theorem finish_reason_tables_witness:
  "\<not> in_table openai_table None \<and> openai_mapFinishReason None = OTHER
   \<and> \<not> in_table anthropic_table None \<and> anthropic_mapFinishReason None = OTHER
   \<and> \<not> in_table meta_table None \<and> meta_mapFinishReason None = OTHER"
  using finish_reason_tables [of None] by simp

section \<open>Properties of request translation: roles and parts\<close>

lemma system_instruction_of_contents [simp]:
  "system_instruction_of (request\<lparr>request_contents := cs\<rparr>) = system_instruction_of request"
  by (simp add: system_instruction_of_def)

lemma system_messages_contents [simp]:
  "openai_system_messages (request\<lparr>request_contents := cs\<rparr>) = openai_system_messages request"
  "meta_system_messages (request\<lparr>request_contents := cs\<rparr>) = meta_system_messages request"
  by (simp_all add: openai_system_messages_def meta_system_messages_def)

text \<open>
  C10. An element of the contents that is an object whose role is neither \<^verbatim>\<open>user\<close>
  nor \<^verbatim>\<open>model\<close> pushes no message in any adapter, and the translation of a request is
  the same with the element and without it: in an array, whatever stands before and
  after it, and as the only element, where the result is that of the empty array.
\<close>

theorem unknown_role_omitted:
  assumes "r \<noteq> Some ''user''" and "r \<noteq> Some ''model''"
  shows "openai_message_of (Content r ps) = []
    \<and> anthropic_message_of (Content r ps) = []
    \<and> meta_message_of (Content r ps) = []
    \<and> openai_convertGeminiToOpenAIMessages
          (request\<lparr>request_contents := Array (before @ Content r ps # after)\<rparr>)
        = openai_convertGeminiToOpenAIMessages (request\<lparr>request_contents := Array (before @ after)\<rparr>)
    \<and> convertGeminiToAnthropicMessages
          (request\<lparr>request_contents := Array (before @ Content r ps # after)\<rparr>)
        = convertGeminiToAnthropicMessages (request\<lparr>request_contents := Array (before @ after)\<rparr>)
    \<and> meta_convertGeminiToOpenAIMessages
          (request\<lparr>request_contents := Array (before @ Content r ps # after)\<rparr>)
        = meta_convertGeminiToOpenAIMessages (request\<lparr>request_contents := Array (before @ after)\<rparr>)
    \<and> openai_convertGeminiToOpenAIMessages (request\<lparr>request_contents := Single (Content r ps)\<rparr>)
        = openai_convertGeminiToOpenAIMessages (request\<lparr>request_contents := Array []\<rparr>)
    \<and> convertGeminiToAnthropicMessages (request\<lparr>request_contents := Single (Content r ps)\<rparr>)
        = convertGeminiToAnthropicMessages (request\<lparr>request_contents := Array []\<rparr>)
    \<and> meta_convertGeminiToOpenAIMessages (request\<lparr>request_contents := Single (Content r ps)\<rparr>)
        = meta_convertGeminiToOpenAIMessages (request\<lparr>request_contents := Array []\<rparr>)"
  using assms
  by (simp add: openai_convertGeminiToOpenAIMessages_def convertGeminiToAnthropicMessages_def
      meta_convertGeminiToOpenAIMessages_def)

theorem unknown_role_omitted_witness:
  "openai_convertGeminiToOpenAIMessages
     \<lparr>request_model = ''gpt-4o'',
      request_contents =
        Array [ContentString ''hi'',
               Content (Some ''system'') (Some [\<lparr>part_text = Some ''dropped'', inlineData = None\<rparr>]),
               Content (Some ''model'') (Some [\<lparr>part_text = Some ''hello'', inlineData = None\<rparr>])],
      request_config = None\<rparr>
     = [Message ''user'' (OText ''hi''), Message ''assistant'' (OText ''hello'')]
   \<and> convertGeminiToAnthropicMessages
     \<lparr>request_model = ''gpt-4o'',
      request_contents =
        Array [ContentString ''hi'',
               Content (Some ''system'') (Some [\<lparr>part_text = Some ''dropped'', inlineData = None\<rparr>]),
               Content (Some ''model'') (Some [\<lparr>part_text = Some ''hello'', inlineData = None\<rparr>])],
      request_config = None\<rparr>
     = [Message ''user'' (AText ''hi''), Message ''assistant'' (AText ''hello'')]
   \<and> meta_convertGeminiToOpenAIMessages
     \<lparr>request_model = ''gpt-4o'',
      request_contents =
        Array [ContentString ''hi'',
               Content (Some ''system'') (Some [\<lparr>part_text = Some ''dropped'', inlineData = None\<rparr>]),
               Content (Some ''model'') (Some [\<lparr>part_text = Some ''hello'', inlineData = None\<rparr>])],
      request_config = None\<rparr>
     = [Message ''user'' ''hi'', Message ''assistant'' ''hello'']"
proof -
  have a: "Some ''system'' \<noteq> Some ''user''" "Some ''system'' \<noteq> Some ''model''" by simp_all
  show ?thesis
    using unknown_role_omitted [OF a,
        where ps = "Some [\<lparr>part_text = Some ''dropped'', inlineData = None\<rparr>]"
          and request = "\<lparr>request_model = ''gpt-4o'', request_contents = Array [],
                         request_config = None\<rparr>"
          and before = "[ContentString ''hi'']"
          and after = "[Content (Some ''model'')
                          (Some [\<lparr>part_text = Some ''hello'', inlineData = None\<rparr>])]"]
    by (simp add: openai_convertGeminiToOpenAIMessages_def convertGeminiToAnthropicMessages_def
        meta_convertGeminiToOpenAIMessages_def openai_system_messages_def meta_system_messages_def
        system_instruction_of_def openai_convertGeminiPartsToText_def
        convertGeminiPartsToAnthropic_def meta_convertGeminiPartsToText_def truthy_def)
qed

lemma single_text_openai:
  "part_text p = Some t \<Longrightarrow> t \<noteq> [] \<Longrightarrow> convertGeminiPartsToOpenAI [p] = OText t"
  by (simp add: convertGeminiPartsToOpenAI_def truthy_def)

lemma single_text_openai_text:
  "part_text p = Some t \<Longrightarrow> t \<noteq> [] \<Longrightarrow> openai_convertGeminiPartsToText [p] = t"
  by (simp add: openai_convertGeminiPartsToText_def truthy_def)

lemma single_text_anthropic:
  "part_text p = Some t \<Longrightarrow> t \<noteq> [] \<Longrightarrow> convertGeminiPartsToAnthropic [p] = AText t"
  by (simp add: convertGeminiPartsToAnthropic_def anthropic_push_def truthy_def)

lemma single_text_meta:
  "part_text p = Some t \<Longrightarrow> t \<noteq> [] \<Longrightarrow> meta_convertGeminiPartsToText [p] = t"
  by (simp add: meta_convertGeminiPartsToText_def truthy_def)

text \<open>
  When the contents are exactly one Content with role \<^verbatim>\<open>user\<close> or \<^verbatim>\<open>model\<close> and
  exactly one part whose text is a non-empty string, every adapter translates it to one
  message whose content is that text as a bare string; the OpenAI and Meta Llama
  adapters put the system message, if any, in front of it.
\<close>

lemma nonempty_text_part_bare_string:
  assumes r: "role = ''user'' \<or> role = ''model''"
    and t: "part_text p = Some t" "t \<noteq> []"
    and cs: "request_contents request = Single (Content (Some role) (Some [p]))
                   \<or> request_contents request = Array [Content (Some role) (Some [p])]"
  shows "openai_convertGeminiToOpenAIMessages request
           = openai_system_messages request @ [Message (provider_role role) (OText t)]
       \<and> convertGeminiToAnthropicMessages request = [Message (provider_role role) (AText t)]
       \<and> meta_convertGeminiToOpenAIMessages request
           = meta_system_messages request @ [Message (provider_role role) t]"
proof -
  have n: "truthy_contents (request_contents request)"
    "normalizeContents (request_contents request) = [Content (Some role) (Some [p])]"
    using cs by auto
  have "openai_message_of (Content (Some role) (Some [p])) = [Message (provider_role role) (OText t)]"
    using r t by (auto simp: provider_role_def single_text_openai single_text_openai_text)
  moreover have "anthropic_message_of (Content (Some role) (Some [p]))
      = [Message (provider_role role) (AText t)]"
    using r t by (auto simp: provider_role_def single_text_anthropic)
  moreover have "meta_message_of (Content (Some role) (Some [p])) = [Message (provider_role role) t]"
    using r t by (auto simp: provider_role_def single_text_meta)
  ultimately show ?thesis
    using n
    by (simp add: openai_convertGeminiToOpenAIMessages_def convertGeminiToAnthropicMessages_def
        meta_convertGeminiToOpenAIMessages_def)
qed

lemma nonempty_text_part_bare_string_example:
  "openai_convertGeminiToOpenAIMessages
     \<lparr>request_model = ''gpt-4o'',
      request_contents = Array [Content (Some ''user'') (Some [\<lparr>part_text = Some ''hello'', inlineData = None\<rparr>])],
      request_config = Some \<lparr>systemInstruction = Some (Single (ContentString ''be brief''))\<rparr>\<rparr>
     = [Message ''system'' (OText ''be brief''), Message ''user'' (OText ''hello'')]
   \<and> convertGeminiToAnthropicMessages
     \<lparr>request_model = ''gpt-4o'',
      request_contents = Array [Content (Some ''user'') (Some [\<lparr>part_text = Some ''hello'', inlineData = None\<rparr>])],
      request_config = Some \<lparr>systemInstruction = Some (Single (ContentString ''be brief''))\<rparr>\<rparr>
     = [Message ''user'' (AText ''hello'')]
   \<and> meta_convertGeminiToOpenAIMessages
     \<lparr>request_model = ''gpt-4o'',
      request_contents = Array [Content (Some ''user'') (Some [\<lparr>part_text = Some ''hello'', inlineData = None\<rparr>])],
      request_config = Some \<lparr>systemInstruction = Some (Single (ContentString ''be brief''))\<rparr>\<rparr>
     = [Message ''system'' ''be brief'', Message ''user'' ''hello'']"
  using nonempty_text_part_bare_string
    [of "''user''" "\<lparr>part_text = Some ''hello'', inlineData = None\<rparr>" "''hello''"
     "\<lparr>request_model = ''gpt-4o'',
      request_contents = Array [Content (Some ''user'') (Some [\<lparr>part_text = Some ''hello'', inlineData = None\<rparr>])],
      request_config = Some \<lparr>systemInstruction = Some (Single (ContentString ''be brief''))\<rparr>\<rparr>"]
  by (simp add: provider_role_def openai_system_messages_def meta_system_messages_def
      system_instruction_of_def system_text_def truthy_def)

text \<open>
  C4, at the input on which the OpenAI and Anthropic adapters depart from it: one
  Content with one text part whose text is the empty string. With role \<^verbatim>\<open>user\<close> the
  OpenAI adapter translates it to an empty array of content parts and the Anthropic
  adapter to an empty array of blocks, where the bare string is the empty string: the
  test \<^verbatim>\<open>parts[0].text\<close> that collapses a single text part is false for it. On the
  same part the Meta Llama adapter, and the OpenAI adapter with role \<^verbatim>\<open>model\<close>, give
  the bare empty string.
\<close>

theorem empty_text_part_not_bare_string:
  "openai_convertGeminiToOpenAIMessages
     \<lparr>request_model = ''gpt-4o'',
      request_contents = Array [Content (Some ''user'') (Some [\<lparr>part_text = Some [], inlineData = None\<rparr>])],
      request_config = None\<rparr>
     = [Message ''user'' (OParts [])]
   \<and> convertGeminiToAnthropicMessages
     \<lparr>request_model = ''gpt-4o'',
      request_contents = Array [Content (Some ''user'') (Some [\<lparr>part_text = Some [], inlineData = None\<rparr>])],
      request_config = None\<rparr>
     = [Message ''user'' (ABlocks [])]
   \<and> OParts [] \<noteq> OText []
   \<and> ABlocks [] \<noteq> AText []
   \<and> meta_convertGeminiToOpenAIMessages
     \<lparr>request_model = ''gpt-4o'',
      request_contents = Array [Content (Some ''user'') (Some [\<lparr>part_text = Some [], inlineData = None\<rparr>])],
      request_config = None\<rparr>
     = [Message ''user'' []]
   \<and> openai_convertGeminiToOpenAIMessages
     \<lparr>request_model = ''gpt-4o'',
      request_contents = Array [Content (Some ''model'') (Some [\<lparr>part_text = Some [], inlineData = None\<rparr>])],
      request_config = None\<rparr>
     = [Message ''assistant'' (OText [])]"
  by (simp add: openai_convertGeminiToOpenAIMessages_def convertGeminiToAnthropicMessages_def
      meta_convertGeminiToOpenAIMessages_def openai_system_messages_def meta_system_messages_def
      system_instruction_of_def convertGeminiPartsToOpenAI_def convertGeminiPartsToAnthropic_def
      openai_push_def anthropic_push_def openai_convertGeminiPartsToText_def
      meta_convertGeminiPartsToText_def truthy_def)

section \<open>Properties of request translation: inline data\<close>

lemma js_includes_refl: "js_includes s s"
proof -
  have "s = [] @ s @ []" by simp
  then show ?thesis unfolding js_includes_iff by blast
qed

lemma openai_push_inline:
  "inlineData p = Some d \<Longrightarrow> \<not> truthy_opt (part_text p) \<Longrightarrow> openai_push p = [ImageUrlPart (data_url d)]"
  by (simp add: openai_push_def data_url_def)

lemma anthropic_push_inline:
  "inlineData p = Some d \<Longrightarrow> \<not> truthy_opt (part_text p)
     \<Longrightarrow> anthropic_push p = [TextBlockParam ''[Image content - not supported in this adapter]'']"
  by (simp add: anthropic_push_def)

lemma not_single_text:
  assumes "p \<in> set ps" and "\<not> truthy_opt (part_text p)"
  shows "\<not> (length ps = 1 \<and> truthy_opt (part_text (hd ps)))"
proof
  assume a: "length ps = 1 \<and> truthy_opt (part_text (hd ps))"
  then obtain q where "ps = [q]" by (cases ps) auto
  with assms a show False by simp
qed

lemma openai_inline_block:
  assumes "p \<in> set ps" and "inlineData p = Some d" and "\<not> truthy_opt (part_text p)"
  shows "\<exists>bs. convertGeminiPartsToOpenAI ps = OParts bs \<and> ImageUrlPart (data_url d) \<in> set bs"
proof -
  let ?cp = "concat (map openai_push ps)"
  have mem: "ImageUrlPart (data_url d) \<in> set ?cp"
    using assms openai_push_inline [of p d] by force
  have "convertGeminiPartsToOpenAI ps = OParts ?cp"
  proof (cases ?cp)
    case Nil
    with mem show ?thesis by simp
  next
    case (Cons b bs)
    show ?thesis
    proof (cases bs)
      case Nil
      with Cons mem have "b = ImageUrlPart (data_url d)" by simp
      with Cons Nil not_single_text [OF assms(1) assms(3)] show ?thesis
        by (simp add: convertGeminiPartsToOpenAI_def Let_def)
    next
      case (Cons b' bs')
      with \<open>?cp = b # bs\<close> not_single_text [OF assms(1) assms(3)] show ?thesis
        by (simp add: convertGeminiPartsToOpenAI_def Let_def split: ChatCompletionContentPart.splits)
    qed
  qed
  with mem show ?thesis by blast
qed

lemma openai_inline_text:
  assumes "p \<in> set ps" and "inlineData p = Some d" and "\<not> truthy_opt (part_text p)"
  shows "js_includes (openai_convertGeminiPartsToText ps) ''[Image data]''"
proof -
  have "''[Image data]'' \<in> set (map (\<lambda>p. if truthy_opt (part_text p) then the (part_text p)
                          else if inlineData p \<noteq> None then ''[Image data]''
                          else []) ps)"
    using assms by force
  then show ?thesis
    unfolding openai_convertGeminiPartsToText_def by (rule join_includes)
qed

lemma meta_inline_text:
  assumes "p \<in> set ps" and "inlineData p = Some d" and "\<not> truthy_opt (part_text p)"
  shows "meta_carries (meta_convertGeminiPartsToText ps)"
proof -
  have "''[Image data not supported by this provider]''
          \<in> set (map (\<lambda>p. if truthy_opt (part_text p) then the (part_text p)
                          else if inlineData p \<noteq> None
                            then ''[Image data not supported by this provider]''
                          else []) ps)"
    using assms by force
  then show ?thesis
    unfolding meta_convertGeminiPartsToText_def meta_carries_def by (rule join_includes)
qed

lemma anthropic_inline_block:
  assumes "p \<in> set ps" and "inlineData p = Some d" and "\<not> truthy_opt (part_text p)"
  shows "anthropic_carries (convertGeminiPartsToAnthropic ps)"
proof -
  let ?ph = "''[Image content - not supported in this adapter]''"
  let ?cb = "concat (map anthropic_push ps)"
  have mem: "TextBlockParam ?ph \<in> set ?cb"
    using assms anthropic_push_inline [of p d] by force
  have unfold: "convertGeminiPartsToAnthropic ps =
      (let contentBlocks = ?cb
       in case contentBlocks of [TextBlockParam t] \<Rightarrow> AText t | _ \<Rightarrow> ABlocks contentBlocks)"
    using not_single_text [OF assms(1) assms(3)] by (auto simp: convertGeminiPartsToAnthropic_def)
  show ?thesis
  proof (cases ?cb)
    case Nil
    with mem show ?thesis by simp
  next
    case (Cons b bs)
    show ?thesis
    proof (cases bs)
      case Nil
      with Cons mem have "?cb = [TextBlockParam ?ph]" by simp
      then have "convertGeminiPartsToAnthropic ps = AText ?ph"
        by (simp add: unfold)
      then show ?thesis by (simp only: anthropic_carries.simps js_includes_refl)
    next
      case (Cons b' bs')
      with \<open>?cb = b # bs\<close> have "convertGeminiPartsToAnthropic ps = ABlocks ?cb"
        by (simp add: unfold Let_def split: TextBlockParam.splits)
      with mem show ?thesis by (simp only: anthropic_carries.simps)
    qed
  qed
qed

text \<open>
  C8. Take an element of a request's contents that is an object with role \<^verbatim>\<open>user\<close> or
  \<^verbatim>\<open>model\<close>, and one of its parts that is an inline-data part (it has
  \<^verbatim>\<open>inlineData\<close> and no text). Every adapter produces a message for that element,
  the message is in the translated list, and its content carries the part: for OpenAI
  an \<^verbatim>\<open>image_url\<close> block with the data URL in a user message and the placeholder
  \<^verbatim>\<open>[Image data]\<close> in the string of an assistant message; for Anthropic and Meta Llama
  the adapter's placeholder naming the unsupported image content, as a text block or
  inside the string. The translation is a total function: it does not fail.
\<close>

theorem inline_data_never_dropped:
  assumes c: "c \<in> set (normalizeContents (request_contents request))"
    "c = Content (Some role) (Some ps)"
    and r: "role = ''user'' \<or> role = ''model''"
    and p: "p \<in> set ps" "inlineData p = Some d" "\<not> truthy_opt (part_text p)"
  shows "(\<exists>content. openai_message_of c = [Message (provider_role role) content]
            \<and> Message (provider_role role) content \<in> set (openai_convertGeminiToOpenAIMessages request)
            \<and> openai_carries content d
            \<and> (if role = ''user'' then \<exists>bs. content = OParts bs else \<exists>s. content = OText s))
       \<and> (\<exists>content. anthropic_message_of c = [Message (provider_role role) content]
            \<and> Message (provider_role role) content \<in> set (convertGeminiToAnthropicMessages request)
            \<and> anthropic_carries content)
       \<and> (\<exists>content. meta_message_of c = [Message (provider_role role) content]
            \<and> Message (provider_role role) content \<in> set (meta_convertGeminiToOpenAIMessages request)
            \<and> meta_carries content)"
proof -
  have tr: "truthy_contents (request_contents request)"
    using c by (cases "request_contents request" rule: truthy_contents.cases) auto
  have o_sub: "set (openai_message_of c) \<subseteq> set (openai_convertGeminiToOpenAIMessages request)"
    using c(1) tr by (auto simp: openai_convertGeminiToOpenAIMessages_def)
  have a_sub: "set (anthropic_message_of c) \<subseteq> set (convertGeminiToAnthropicMessages request)"
    using c(1) tr by (auto simp: convertGeminiToAnthropicMessages_def)
  have m_sub: "set (meta_message_of c) \<subseteq> set (meta_convertGeminiToOpenAIMessages request)"
    using c(1) tr by (auto simp: meta_convertGeminiToOpenAIMessages_def)
  obtain bs where bs: "convertGeminiPartsToOpenAI ps = OParts bs" "ImageUrlPart (data_url d) \<in> set bs"
    using openai_inline_block [OF p] by blast
  have ot: "js_includes (openai_convertGeminiPartsToText ps) ''[Image data]''"
    using openai_inline_text [OF p] .
  have o_msg: "openai_message_of c = [Message (provider_role role)
        (if role = ''user'' then OParts bs else OText (openai_convertGeminiPartsToText ps))]"
    using c(2) r bs(1) by (auto simp: provider_role_def)
  have o_carry: "openai_carries
      (if role = ''user'' then OParts bs else OText (openai_convertGeminiPartsToText ps)) d"
    using bs(2) ot by simp
  have a_msg: "anthropic_message_of c = [Message (provider_role role) (convertGeminiPartsToAnthropic ps)]"
    using c(2) r by (auto simp: provider_role_def)
  have m_msg: "meta_message_of c = [Message (provider_role role) (meta_convertGeminiPartsToText ps)]"
    using c(2) r by (auto simp: provider_role_def)
  have "\<exists>content. openai_message_of c = [Message (provider_role role) content]
            \<and> Message (provider_role role) content \<in> set (openai_convertGeminiToOpenAIMessages request)
            \<and> openai_carries content d
            \<and> (if role = ''user'' then \<exists>bs. content = OParts bs else \<exists>s. content = OText s)"
    using o_msg o_carry o_sub
    by (intro exI [of _ "if role = ''user'' then OParts bs
                         else OText (openai_convertGeminiPartsToText ps)"]) auto
  moreover have "\<exists>content. anthropic_message_of c = [Message (provider_role role) content]
            \<and> Message (provider_role role) content \<in> set (convertGeminiToAnthropicMessages request)
            \<and> anthropic_carries content"
    using a_msg a_sub anthropic_inline_block [OF p]
    by (intro exI [of _ "convertGeminiPartsToAnthropic ps"]) auto
  moreover have "\<exists>content. meta_message_of c = [Message (provider_role role) content]
            \<and> Message (provider_role role) content \<in> set (meta_convertGeminiToOpenAIMessages request)
            \<and> meta_carries content"
    using m_msg m_sub meta_inline_text [OF p]
    by (intro exI [of _ "meta_convertGeminiPartsToText ps"]) auto
  ultimately show ?thesis by blast
qed

theorem inline_data_never_dropped_witness:
  "(\<exists>content.
       Message ''user'' content
         \<in> set (openai_convertGeminiToOpenAIMessages
                  \<lparr>request_model = ''gpt-4o'',
                   request_contents =
                     Array [Content (Some ''user'')
                              (Some [\<lparr>part_text = Some ''look'', inlineData = None\<rparr>,
                                     \<lparr>part_text = None,
                                      inlineData = Some \<lparr>mimeType = ''image/png'', blob_data = ''AAAA''\<rparr>\<rparr>])],
                   request_config = None\<rparr>)
       \<and> openai_carries content \<lparr>mimeType = ''image/png'', blob_data = ''AAAA''\<rparr>
       \<and> (\<exists>bs. content = OParts bs))
   \<and> (\<exists>content.
       Message ''user'' content
         \<in> set (convertGeminiToAnthropicMessages
                  \<lparr>request_model = ''gpt-4o'',
                   request_contents =
                     Array [Content (Some ''user'')
                              (Some [\<lparr>part_text = Some ''look'', inlineData = None\<rparr>,
                                     \<lparr>part_text = None,
                                      inlineData = Some \<lparr>mimeType = ''image/png'', blob_data = ''AAAA''\<rparr>\<rparr>])],
                   request_config = None\<rparr>)
       \<and> anthropic_carries content)
   \<and> (\<exists>content.
       Message ''user'' content
         \<in> set (meta_convertGeminiToOpenAIMessages
                  \<lparr>request_model = ''gpt-4o'',
                   request_contents =
                     Array [Content (Some ''user'')
                              (Some [\<lparr>part_text = Some ''look'', inlineData = None\<rparr>,
                                     \<lparr>part_text = None,
                                      inlineData = Some \<lparr>mimeType = ''image/png'', blob_data = ''AAAA''\<rparr>\<rparr>])],
                   request_config = None\<rparr>)
       \<and> meta_carries content)"
proof -
  let ?img = "\<lparr>mimeType = ''image/png'', blob_data = ''AAAA''\<rparr>"
  let ?p = "\<lparr>part_text = None, inlineData = Some ?img\<rparr>"
  let ?ps = "[\<lparr>part_text = Some ''look'', inlineData = None\<rparr>, ?p]"
  let ?c = "Content (Some ''user'') (Some ?ps)"
  let ?request = "\<lparr>request_model = ''gpt-4o'', request_contents = Array [?c], request_config = None\<rparr>"
  have h: "?c \<in> set (normalizeContents (request_contents ?request))"
    "?c = Content (Some ''user'') (Some ?ps)"
    "''user'' = ''user'' \<or> ''user'' = ''model''"
    "?p \<in> set ?ps" "inlineData ?p = Some ?img" "\<not> truthy_opt (part_text ?p)"
    by simp_all
  show ?thesis
    using inline_data_never_dropped [OF h] by (auto simp: provider_role_def)
qed

section \<open>Properties of the token estimates\<close>

lemma ceiling_quarter:
  fixes n :: nat
  shows "\<lceil>(of_nat n :: 'a :: floor_ceiling) / 4\<rceil> = (int n + 3) div 4"
proof -
  have "(of_nat n :: 'a) / 4 = of_int (int n) / of_int 4" by simp
  then have "\<lceil>(of_nat n :: 'a) / 4\<rceil> = - (- int n div 4)"
    by (simp only: ceiling_divide_eq_div)
  also have "\<dots> = (int n + 3) div 4" by presburger
  finally show ?thesis .
qed

lemma ceiling_three_and_a_half:
  fixes n :: nat
  shows "\<lceil>(of_nat n :: 'a :: floor_ceiling) / 3.5\<rceil> = (2 * int n + 6) div 7"
proof -
  have "(of_nat n :: 'a) / 3.5 = of_int (2 * int n) / of_int 7" by simp
  then have "\<lceil>(of_nat n :: 'a) / 3.5\<rceil> = - (- (2 * int n) div 7)"
    by (simp only: ceiling_divide_eq_div)
  also have "\<dots> = (2 * int n + 6) div 7" by presburger
  finally show ?thesis .
qed

text \<open>
  The source takes the quotient in double precision. A rounded quotient that is within
  \<open>1 / d\<close> of the exact one, and equal to it when the exact one is an integer, has
  the same ceiling; rounding to the nearest double is that close for every length a
  string can have, and keeps integers of that size.
\<close>

lemma ceiling_of_rounded_quotient:
  fixes r :: real and a d :: nat
  assumes d: "0 < d"
    and near: "\<bar>r - real a / real d\<bar> < 1 / real d"
    and exact: "d dvd a \<Longrightarrow> r = real a / real d"
  shows "\<lceil>r\<rceil> = \<lceil>real a / real d\<rceil>"
proof (cases "d dvd a")
  case True
  then have "r = real a / real d" by (rule exact)
  then show ?thesis by (simp only:)
next
  case False
  define k where "k = a div d"
  define m where "m = a mod d"
  have m: "0 < m" "m < d"
    using False d unfolding m_def by (auto simp: dvd_eq_mod_eq_0)
  have "a = d * k + m"
    unfolding k_def m_def by simp
  then have "real a = real d * real k + real m"
    by (metis of_nat_add of_nat_mult)
  then have q: "real a / real d = real k + real m / real d"
    using d by (simp add: field_simps)
  have m1: "1 \<le> real m" "real m + 1 \<le> real d"
    using m by linarith+
  have e: "(real m + 1) / real d = real m / real d + 1 / real d"
    "(real m - 1) / real d = real m / real d - 1 / real d"
    by (simp_all add: add_divide_distrib diff_divide_distrib)
  have "r - real a / real d < 1 / real d" "- (1 / real d) < r - real a / real d"
    using near by (simp_all add: abs_less_iff)
  then have "r < real k + (real m + 1) / real d" "real k + (real m - 1) / real d < r"
    unfolding q e by linarith+
  moreover have "(real m + 1) / real d \<le> 1" "0 \<le> (real m - 1) / real d"
    using m1 d by simp_all
  ultimately have lo: "real k < r" and hi: "r \<le> real k + 1"
    by linarith+
  have "\<lceil>r\<rceil> = int k + 1"
    using lo hi by (intro ceiling_unique) simp_all
  moreover have "0 < real m / real d" "real m / real d \<le> 1"
    using m d by simp_all
  then have "\<lceil>real a / real d\<rceil> = int k + 1"
    unfolding q by (intro ceiling_unique) simp_all
  ultimately show ?thesis by simp
qed

lemma countTokens_rounding_4:
  fixes r :: real
  assumes "\<bar>r - real n / 4\<bar> < 1 / 4" and "4 dvd n \<Longrightarrow> r = real n / 4"
  shows "\<lceil>r\<rceil> = \<lceil>real n / 4\<rceil>"
proof -
  have "\<lceil>r\<rceil> = \<lceil>real n / real (4::nat)\<rceil>"
    using assms by (intro ceiling_of_rounded_quotient) simp_all
  then show ?thesis by simp
qed

lemma countTokens_rounding_3_5:
  fixes r :: real
  assumes "\<bar>r - real n / 3.5\<bar> < 1 / 7" and "7 dvd 2 * n \<Longrightarrow> r = real n / 3.5"
  shows "\<lceil>r\<rceil> = \<lceil>real n / 3.5\<rceil>"
proof -
  have q: "real n / 3.5 = real (2 * n) / real (7::nat)" by simp
  have "\<lceil>r\<rceil> = \<lceil>real (2 * n) / real (7::nat)\<rceil>"
    using assms unfolding q by (intro ceiling_of_rounded_quotient) simp_all
  then show ?thesis unfolding q .
qed

text \<open>
  C5. \<^verbatim>\<open>countTokens\<close> is a total function of the contents in every adapter. When the
  extracted text is empty it returns \<^verbatim>\<open>{totalTokens: 0}\<close>; when the text has length
  \<open>L > 0\<close> it returns the ceiling of \<open>L / 4\<close> (OpenAI, Meta Llama) or of \<open>L / 3.5\<close>
  (Anthropic), which is positive. In integers these are \<open>(L + 3) div 4\<close> and
  \<open>(2 L + 6) div 7\<close>.
\<close>

theorem countTokens_estimate:
  "(extractTextFromContents contents = [] \<longrightarrow>
       openai_countTokens contents = \<lparr>totalTokens = 0\<rparr>
     \<and> anthropic_countTokens contents = \<lparr>totalTokens = 0\<rparr>
     \<and> meta_countTokens contents = \<lparr>totalTokens = 0\<rparr>)
   \<and> (extractTextFromContents contents \<noteq> [] \<longrightarrow>
       openai_countTokens contents
         = \<lparr>totalTokens = \<lceil>real (length (extractTextFromContents contents)) / 4\<rceil>\<rparr>
     \<and> anthropic_countTokens contents
         = \<lparr>totalTokens = \<lceil>real (length (extractTextFromContents contents)) / 3.5\<rceil>\<rparr>
     \<and> meta_countTokens contents
         = \<lparr>totalTokens = \<lceil>real (length (extractTextFromContents contents)) / 4\<rceil>\<rparr>
     \<and> 0 < totalTokens (openai_countTokens contents)
     \<and> 0 < totalTokens (anthropic_countTokens contents)
     \<and> 0 < totalTokens (meta_countTokens contents))
   \<and> totalTokens (openai_countTokens contents)
        = (int (length (extractTextFromContents contents)) + 3) div 4
   \<and> totalTokens (anthropic_countTokens contents)
        = (2 * int (length (extractTextFromContents contents)) + 6) div 7
   \<and> totalTokens (meta_countTokens contents)
        = (int (length (extractTextFromContents contents)) + 3) div 4"
proof -
  let ?n = "length (extractTextFromContents contents)"
  have o: "openai_countTokens contents = \<lparr>totalTokens = (int ?n + 3) div 4\<rparr>"
    by (simp add: openai_countTokens_def Let_def ceiling_quarter)
  have a: "anthropic_countTokens contents = \<lparr>totalTokens = (2 * int ?n + 6) div 7\<rparr>"
    by (simp only: anthropic_countTokens_def Let_def ceiling_three_and_a_half)
  have m: "meta_countTokens contents = \<lparr>totalTokens = (int ?n + 3) div 4\<rparr>"
    by (simp add: meta_countTokens_def Let_def ceiling_quarter)
  have p4: "0 < ?n \<Longrightarrow> 0 < (int ?n + 3) div 4" by presburger
  have p7: "0 < ?n \<Longrightarrow> 0 < (2 * int ?n + 6) div 7" by presburger
  have r4: "\<lceil>real ?n / 4\<rceil> = (int ?n + 3) div 4" by (rule ceiling_quarter)
  have r7: "\<lceil>real ?n / 3.5\<rceil> = (2 * int ?n + 6) div 7" by (rule ceiling_three_and_a_half)
  show ?thesis
    unfolding o a m r4 r7
    using p4 p7 by simp
qed

theorem countTokens_estimate_witness:
  "extractTextFromContents (Array []) = []
   \<and> openai_countTokens (Array []) = \<lparr>totalTokens = 0\<rparr>
   \<and> anthropic_countTokens (Array []) = \<lparr>totalTokens = 0\<rparr>
   \<and> meta_countTokens (Array []) = \<lparr>totalTokens = 0\<rparr>
   \<and> extractTextFromContents (Single (ContentString ''hello world'')) \<noteq> []
   \<and> openai_countTokens (Single (ContentString ''hello world'')) = \<lparr>totalTokens = 3\<rparr>
   \<and> anthropic_countTokens (Single (ContentString ''hello world'')) = \<lparr>totalTokens = 4\<rparr>
   \<and> meta_countTokens (Single (ContentString ''hello world'')) = \<lparr>totalTokens = 3\<rparr>"
  using countTokens_estimate [of "Array []"]
    countTokens_estimate [of "Single (ContentString ''hello world'')"]
  by simp

section \<open>Properties of the usage counters\<close>

text \<open>
  C7, amended. In the translation of a chat completion (OpenAI, Meta Llama) each of
  the three counters is the provider's counter, or 0 when the usage object or that
  counter is missing; the total is the provider's \<^verbatim>\<open>total_tokens\<close> or 0 and is not
  computed from the other two. In the translation of an Anthropic message, which
  always has its two counters and has no total, the two counters are copied and the
  total is their sum.
\<close>

theorem usage_metadata_translation:
  assumes "choices response \<noteq> []"
  shows "(\<exists>r u. openai_convertOpenAIToGeminiResponse response = Some r \<and> usageMetadata r = Some u
           \<and> (case usage response of
                 None \<Rightarrow> promptTokenCount u = 0 \<and> candidatesTokenCount u = 0
                         \<and> totalTokenCount u = 0
               | Some cu \<Rightarrow>
                   promptTokenCount u = (case prompt_tokens cu of None \<Rightarrow> 0 | Some n \<Rightarrow> n)
                 \<and> candidatesTokenCount u = (case completion_tokens cu of None \<Rightarrow> 0 | Some n \<Rightarrow> n)
                 \<and> totalTokenCount u = (case total_tokens cu of None \<Rightarrow> 0 | Some n \<Rightarrow> n)))
       \<and> (\<exists>r u. meta_convertOpenAIToGeminiResponse response = Some r \<and> usageMetadata r = Some u
           \<and> (case usage response of
                 None \<Rightarrow> promptTokenCount u = 0 \<and> candidatesTokenCount u = 0
                         \<and> totalTokenCount u = 0
               | Some cu \<Rightarrow>
                   promptTokenCount u = (case prompt_tokens cu of None \<Rightarrow> 0 | Some n \<Rightarrow> n)
                 \<and> candidatesTokenCount u = (case completion_tokens cu of None \<Rightarrow> 0 | Some n \<Rightarrow> n)
                 \<and> totalTokenCount u = (case total_tokens cu of None \<Rightarrow> 0 | Some n \<Rightarrow> n)))
       \<and> (\<exists>u. usageMetadata (convertAnthropicToGeminiResponse message) = Some u
           \<and> promptTokenCount u = input_tokens (message_usage message)
           \<and> candidatesTokenCount u = output_tokens (message_usage message)
           \<and> totalTokenCount u = promptTokenCount u + candidatesTokenCount u)"
proof -
  obtain choice rest where "choices response = choice # rest"
    using assms by (cases "choices response") auto
  then show ?thesis
    by (simp add: openai_convertOpenAIToGeminiResponse_def meta_convertOpenAIToGeminiResponse_def
        chat_completion_to_gemini_def convertAnthropicToGeminiResponse_def Let_def
        split: option.splits)
qed

theorem usage_metadata_translation_witness:
  "choices \<lparr>choices = [\<lparr>message_content = Some ''ok'', finish_reason = Some ''stop''\<rparr>],
            usage = Some \<lparr>prompt_tokens = Some 5, completion_tokens = None, total_tokens = Some 9\<rparr>\<rparr>
     \<noteq> []
   \<and> (\<exists>r u. openai_convertOpenAIToGeminiResponse
               \<lparr>choices = [\<lparr>message_content = Some ''ok'', finish_reason = Some ''stop''\<rparr>],
                usage = Some \<lparr>prompt_tokens = Some 5, completion_tokens = None,
                              total_tokens = Some 9\<rparr>\<rparr> = Some r
          \<and> usageMetadata r = Some u
          \<and> promptTokenCount u = 5 \<and> candidatesTokenCount u = 0 \<and> totalTokenCount u = 9)
   \<and> (\<exists>r u. meta_convertOpenAIToGeminiResponse
               \<lparr>choices = [\<lparr>message_content = Some ''ok'', finish_reason = Some ''stop''\<rparr>],
                usage = Some \<lparr>prompt_tokens = Some 5, completion_tokens = None,
                              total_tokens = Some 9\<rparr>\<rparr> = Some r
          \<and> usageMetadata r = Some u
          \<and> promptTokenCount u = 5 \<and> candidatesTokenCount u = 0 \<and> totalTokenCount u = 9)
   \<and> (\<exists>u. usageMetadata (convertAnthropicToGeminiResponse
               \<lparr>message_blocks = [TextBlock ''ok''], stop_reason = Some ''end_turn'',
                message_usage = \<lparr>input_tokens = 3, output_tokens = 4\<rparr>\<rparr>) = Some u
          \<and> promptTokenCount u = 3 \<and> candidatesTokenCount u = 4 \<and> totalTokenCount u = 7)"
  using usage_metadata_translation
    [of "\<lparr>choices = [\<lparr>message_content = Some ''ok'', finish_reason = Some ''stop''\<rparr>],
          usage = Some \<lparr>prompt_tokens = Some 5, completion_tokens = None, total_tokens = Some 9\<rparr>\<rparr>"
        "\<lparr>message_blocks = [TextBlock ''ok''], stop_reason = Some ''end_turn'',
                message_usage = \<lparr>input_tokens = 3, output_tokens = 4\<rparr>\<rparr>"]
  by auto

theorem usage_total_not_sum_counterexample:
  "total_tokens \<lparr>prompt_tokens = Some 5, completion_tokens = Some 3, total_tokens = None\<rparr> = None
   \<and> map_option usageMetadata
       (openai_convertOpenAIToGeminiResponse
          \<lparr>choices = [\<lparr>message_content = Some ''ok'', finish_reason = Some ''stop''\<rparr>],
           usage = Some \<lparr>prompt_tokens = Some 5, completion_tokens = Some 3, total_tokens = None\<rparr>\<rparr>)
     = Some (Some \<lparr>promptTokenCount = 5, candidatesTokenCount = 3, totalTokenCount = 0\<rparr>)
   \<and> map_option usageMetadata
       (meta_convertOpenAIToGeminiResponse
          \<lparr>choices = [\<lparr>message_content = Some ''ok'', finish_reason = Some ''stop''\<rparr>],
           usage = Some \<lparr>prompt_tokens = Some 5, completion_tokens = Some 3, total_tokens = None\<rparr>\<rparr>)
     = Some (Some \<lparr>promptTokenCount = 5, candidatesTokenCount = 3, totalTokenCount = 0\<rparr>)
   \<and> (0::nat) \<noteq> 5 + 3"
  by (simp add: openai_convertOpenAIToGeminiResponse_def meta_convertOpenAIToGeminiResponse_def
      chat_completion_to_gemini_def)

section \<open>Properties of the configuration resolution\<close>

text \<open>
  C3. When the requested mode is a secondary provider's and that provider's credential
  is set (for Meta Llama: either of its two variables), the resolved model is that
  provider's default model if the selected model (the session's model, or the default
  Gemini model when that is empty) contains \<^verbatim>\<open>gemini\<close>, and the selected model
  unchanged if it does not.
\<close>

theorem secondary_provider_default_model:
  "(truthy_opt (environment ''OPENAI_API_KEY'') \<longrightarrow>
      model (resolved (createContentGeneratorConfig DEFAULT environment config (Some USE_OPENAI)))
        = (if js_includes (or_string (Some (getModel config)) DEFAULT) ''gemini'' then ''gpt-4o''
           else or_string (Some (getModel config)) DEFAULT))
   \<and> (truthy_opt (environment ''ANTHROPIC_API_KEY'') \<longrightarrow>
      model (resolved (createContentGeneratorConfig DEFAULT environment config (Some USE_ANTHROPIC)))
        = (if js_includes (or_string (Some (getModel config)) DEFAULT) ''gemini''
           then ''claude-3-5-sonnet-20241022''
           else or_string (Some (getModel config)) DEFAULT))
   \<and> (truthy_opt (environment ''META_API_KEY'') \<or> truthy_opt (environment ''LLAMA_API_KEY'') \<longrightarrow>
      model (resolved (createContentGeneratorConfig DEFAULT environment config (Some USE_META_LLAMA)))
        = (if js_includes (or_string (Some (getModel config)) DEFAULT) ''gemini''
           then ''llama-3.1-70b-instruct''
           else or_string (Some (getModel config)) DEFAULT))"
proof -
  have t: "\<And>x. truthy_opt (or_undefined x) = truthy_opt x"
    by (case_tac x) auto
  have m: "truthy_opt (case or_undefined (environment ''META_API_KEY'') of
                          Some k \<Rightarrow> Some k
                        | None \<Rightarrow> or_undefined (environment ''LLAMA_API_KEY''))
        = (truthy_opt (environment ''META_API_KEY'') \<or> truthy_opt (environment ''LLAMA_API_KEY''))"
    by (cases "environment ''META_API_KEY''"; cases "environment ''LLAMA_API_KEY''") auto
  show ?thesis
    by (simp add: createContentGeneratorConfig_def Let_def t m del: or_string.simps)
qed

theorem secondary_provider_default_model_witness:
  "model (resolved (createContentGeneratorConfig ''gemini-2.5-pro'' [''OPENAI_API_KEY'' \<mapsto> ''test-key'']
            \<lparr>getModel = ''gemini-2.5-pro'', getProxy = None\<rparr> (Some USE_OPENAI))) = ''gpt-4o''
   \<and> model (resolved (createContentGeneratorConfig ''gemini-2.5-pro'' [''OPENAI_API_KEY'' \<mapsto> ''test-key'']
            \<lparr>getModel = ''gpt-4o-mini'', getProxy = None\<rparr> (Some USE_OPENAI))) = ''gpt-4o-mini''
   \<and> model (resolved (createContentGeneratorConfig ''gemini-2.5-pro'' [''ANTHROPIC_API_KEY'' \<mapsto> ''test-key'']
            \<lparr>getModel = ''gemini-2.5-pro'', getProxy = None\<rparr> (Some USE_ANTHROPIC)))
       = ''claude-3-5-sonnet-20241022''
   \<and> model (resolved (createContentGeneratorConfig ''gemini-2.5-pro'' [''LLAMA_API_KEY'' \<mapsto> ''test-key'']
            \<lparr>getModel = ''gemini-2.5-pro'', getProxy = None\<rparr> (Some USE_META_LLAMA)))
       = ''llama-3.1-70b-instruct''
   \<and> model (resolved (createContentGeneratorConfig ''gemini-2.5-pro'' [''META_API_KEY'' \<mapsto> ''test-key'']
            \<lparr>getModel = ''llama-3.1-8b'', getProxy = None\<rparr> (Some USE_META_LLAMA)))
       = ''llama-3.1-8b''"
  using secondary_provider_default_model
      [of "[''OPENAI_API_KEY'' \<mapsto> ''test-key'']" "''gemini-2.5-pro''"
          "\<lparr>getModel = ''gemini-2.5-pro'', getProxy = None\<rparr>"]
    secondary_provider_default_model
      [of "[''OPENAI_API_KEY'' \<mapsto> ''test-key'']" "''gemini-2.5-pro''"
          "\<lparr>getModel = ''gpt-4o-mini'', getProxy = None\<rparr>"]
    secondary_provider_default_model
      [of "[''ANTHROPIC_API_KEY'' \<mapsto> ''test-key'']" "''gemini-2.5-pro''"
          "\<lparr>getModel = ''gemini-2.5-pro'', getProxy = None\<rparr>"]
    secondary_provider_default_model
      [of "[''LLAMA_API_KEY'' \<mapsto> ''test-key'']" "''gemini-2.5-pro''"
          "\<lparr>getModel = ''gemini-2.5-pro'', getProxy = None\<rparr>"]
    secondary_provider_default_model
      [of "[''META_API_KEY'' \<mapsto> ''test-key'']" "''gemini-2.5-pro''"
          "\<lparr>getModel = ''llama-3.1-8b'', getProxy = None\<rparr>"]
  by (simp add: truthy_def)

text \<open>
  C9. For every requested mode, two environments that agree on the credential
  variables of the provider the mode implies give the same resolution (the same
  configuration and the same calls started), for the same session model, proxy and
  default model, however the two differ on the other providers' variables.
\<close>

theorem resolution_noninterference:
  assumes "agree_on (credential_variables (provider_of_mode auth)) environment1 environment2"
  shows "createContentGeneratorConfig DEFAULT environment1 config auth
       = createContentGeneratorConfig DEFAULT environment2 config auth"
proof (cases auth)
  case None
  then show ?thesis by (simp add: createContentGeneratorConfig_def Let_def)
next
  case (Some a)
  with assms show ?thesis
    by (cases a)
       (simp_all add: createContentGeneratorConfig_def Let_def agree_on_def
          del: or_string.simps cong: option.case_cong)
qed

theorem resolution_noninterference_witness:
  "agree_on (credential_variables (provider_of_mode (Some USE_OPENAI)))
     [''OPENAI_API_KEY'' \<mapsto> ''sk-1'', ''ANTHROPIC_API_KEY'' \<mapsto> ''other'']
     [''OPENAI_API_KEY'' \<mapsto> ''sk-1'', ''GEMINI_API_KEY'' \<mapsto> ''g'', ''META_API_KEY'' \<mapsto> ''m'']
   \<and> createContentGeneratorConfig ''gemini-2.5-pro''
         [''OPENAI_API_KEY'' \<mapsto> ''sk-1'', ''ANTHROPIC_API_KEY'' \<mapsto> ''other'']
         \<lparr>getModel = ''gemini-2.5-pro'', getProxy = None\<rparr> (Some USE_OPENAI)
     = createContentGeneratorConfig ''gemini-2.5-pro''
         [''OPENAI_API_KEY'' \<mapsto> ''sk-1'', ''GEMINI_API_KEY'' \<mapsto> ''g'', ''META_API_KEY'' \<mapsto> ''m'']
         \<lparr>getModel = ''gemini-2.5-pro'', getProxy = None\<rparr> (Some USE_OPENAI)"
proof -
  have a: "agree_on (credential_variables (provider_of_mode (Some USE_OPENAI)))
     [''OPENAI_API_KEY'' \<mapsto> ''sk-1'', ''ANTHROPIC_API_KEY'' \<mapsto> ''other'']
     [''OPENAI_API_KEY'' \<mapsto> ''sk-1'', ''GEMINI_API_KEY'' \<mapsto> ''g'', ''META_API_KEY'' \<mapsto> ''m'']"
    by (simp add: agree_on_def)
  from a resolution_noninterference [OF a] show ?thesis by blast
qed

section \<open>Properties of the generator factory\<close>

text \<open>
  C6. For a secondary provider's mode and a configuration whose \<^verbatim>\<open>apiKey\<close> is
  missing or empty, the factory throws an error whose message names the provider's API
  key, whatever the collaborator and the process are: nothing is constructed and the
  collaborator is not called. Outside the two code-assist modes, which hand over to the
  collaborator, every failure of the factory is one of those three messages or the
  unsupported-mode message, and depends on the configuration alone.
\<close>

theorem missing_credential_fails:
  "(authType config = Some USE_OPENAI \<and> \<not> truthy_opt (apiKey config) \<longrightarrow>
      createContentGenerator codeAssist process config
        = Inl ''OpenAI API key is required but not provided'')
   \<and> (authType config = Some USE_ANTHROPIC \<and> \<not> truthy_opt (apiKey config) \<longrightarrow>
      createContentGenerator codeAssist process config
        = Inl ''Anthropic API key is required but not provided'')
   \<and> (authType config = Some USE_META_LLAMA \<and> \<not> truthy_opt (apiKey config) \<longrightarrow>
      createContentGenerator codeAssist process config
        = Inl ''Meta Llama API key is required but not provided'')
   \<and> (authType config \<noteq> Some LOGIN_WITH_GOOGLE \<and> authType config \<noteq> Some CLOUD_SHELL
       \<and> createContentGenerator codeAssist process config = Inl e \<longrightarrow>
         e \<in> set [''OpenAI API key is required but not provided'',
                   ''Anthropic API key is required but not provided'',
                   ''Meta Llama API key is required but not provided'',
                   ''Error creating contentGenerator: Unsupported authType: undefined'']
       \<and> createContentGenerator codeAssist' process' config = Inl e)"
proof (cases "authType config")
  case None
  then show ?thesis by (auto simp: createContentGenerator_def)
next
  case (Some a)
  then show ?thesis
    by (cases a) (auto simp: createContentGenerator_def)
qed

theorem missing_credential_fails_witness:
  "createContentGenerator (\<lambda>a. Inr CodeAssistGenerator)
     \<lparr>CLI_VERSION = None, process_version = ''v20.0.0'', process_platform = ''linux'',
      process_arch = ''x64''\<rparr>
     \<lparr>model = ''gpt-4o'', apiKey = None, vertexai = None, authType = Some USE_OPENAI,
      proxy = None, provider = None\<rparr>
     = Inl ''OpenAI API key is required but not provided''
   \<and> createContentGenerator (\<lambda>a. Inr CodeAssistGenerator)
     \<lparr>CLI_VERSION = None, process_version = ''v20.0.0'', process_platform = ''linux'',
      process_arch = ''x64''\<rparr>
     \<lparr>model = ''claude'', apiKey = Some [], vertexai = None, authType = Some USE_ANTHROPIC,
      proxy = None, provider = None\<rparr>
     = Inl ''Anthropic API key is required but not provided''
   \<and> createContentGenerator (\<lambda>a. Inr CodeAssistGenerator)
     \<lparr>CLI_VERSION = None, process_version = ''v20.0.0'', process_platform = ''linux'',
      process_arch = ''x64''\<rparr>
     \<lparr>model = ''llama'', apiKey = None, vertexai = None, authType = Some USE_META_LLAMA,
      proxy = None, provider = None\<rparr>
     = Inl ''Meta Llama API key is required but not provided''
   \<and> js_includes ''OpenAI API key is required but not provided'' ''OpenAI API key''
   \<and> js_includes ''Anthropic API key is required but not provided'' ''Anthropic API key''
   \<and> js_includes ''Meta Llama API key is required but not provided'' ''Meta Llama API key''"
  using missing_credential_fails
    [of "\<lparr>model = ''gpt-4o'', apiKey = None, vertexai = None, authType = Some USE_OPENAI,
      proxy = None, provider = None\<rparr>" "\<lambda>a. Inr CodeAssistGenerator"
      "\<lparr>CLI_VERSION = None, process_version = ''v20.0.0'', process_platform = ''linux'',
      process_arch = ''x64''\<rparr>"]
    missing_credential_fails
    [of "\<lparr>model = ''claude'', apiKey = Some [], vertexai = None, authType = Some USE_ANTHROPIC,
      proxy = None, provider = None\<rparr>" "\<lambda>a. Inr CodeAssistGenerator"
      "\<lparr>CLI_VERSION = None, process_version = ''v20.0.0'', process_platform = ''linux'',
      process_arch = ''x64''\<rparr>"]
    missing_credential_fails
    [of "\<lparr>model = ''llama'', apiKey = None, vertexai = None, authType = Some USE_META_LLAMA,
      proxy = None, provider = None\<rparr>" "\<lambda>a. Inr CodeAssistGenerator"
      "\<lparr>CLI_VERSION = None, process_version = ''v20.0.0'', process_platform = ''linux'',
      process_arch = ''x64''\<rparr>"]
  by (simp add: truthy_def)

section \<open>Properties of streaming\<close>

lemma or_string_empty [simp]: "or_string (Some t) [] = t"
  by (simp add: truthy_def)

lemma chunk_to_gemini_text_event:
  "chunk_to_gemini f (text_event t fr)
     = Some (partial_response t (if truthy_opt fr then Some (f fr) else None))"
  by (simp add: chunk_to_gemini_def text_event_def partial_response_def del: or_string.simps)

lemma has_delta_text_event: "has_delta (text_event t fr)"
  by (simp add: has_delta_def text_event_def)

text \<open>Under the loop's guard the conversion of a chunk does not fail.\<close>

lemma has_delta_chunk_to_gemini: "has_delta chunk \<Longrightarrow> chunk_to_gemini f chunk \<noteq> None"
  by (auto simp: has_delta_def chunk_to_gemini_def split: list.splits option.splits)

text \<open>
  OpenAI and Meta Llama: a stream of text events of which the last carries the finish
  reason gives one partial response per event, in order, each with that event's text;
  the last carries the mapped finish reason and the others none.
\<close>

lemma chat_stream_text_events:
  "chat_stream name f (of_list (map (\<lambda>t. text_event t None) ts @ [text_event t (Some reason)]))
     = of_list (map (\<lambda>t. partial_response t None) ts
                @ [partial_response t (if truthy reason then Some (f (Some reason)) else None)])"
  by (induction ts) (simp_all add: chunk_to_gemini_text_event has_delta_text_event)

text \<open>
  A chunk that has a delta without content, such as a closing chunk that only carries
  the finish reason, passes the guard too and is emitted with the empty text.
\<close>

lemma chat_stream_empty_delta:
  "chat_stream name f
     (of_list [\<lparr>chunk_choices = [\<lparr>delta = Some \<lparr>delta_content = None\<rparr>,
                                  chunk_finish_reason = Some ''stop''\<rparr>]\<rparr>])
     = of_list [partial_response [] (Some (f (Some ''stop'')))]"
  by (simp add: has_delta_def chunk_to_gemini_def partial_response_def truthy_def)

text \<open>
  Anthropic: a stream of text deltas gives one partial response per delta, in order,
  each with that delta's text; and no partial response of any stream carries a finish
  reason.
\<close>

lemma anthropic_stream_text_deltas:
  "anthropic_stream (of_list (map (\<lambda>t. ContentBlockDelta (TextDelta t)) ts))
     = of_list (map (\<lambda>t. partial_response t None) ts)"
  by (induction ts)
     (simp_all add: convertAnthropicStreamChunkToGemini_def partial_response_def
        del: or_string.simps)

lemma anthropic_stream_no_finish_reason:
  "list_all (\<lambda>r. response_finishReason r = None) (yielded (anthropic_stream g))"
  by (induction g)
     (simp_all add: convertAnthropicStreamChunkToGemini_def response_finishReason_def)

text \<open>
  C1, at the input on which the Anthropic adapter departs from it. The provider's
  stream has two text deltas, \<^verbatim>\<open>Hel\<close> and \<^verbatim>\<open>lo\<close>, and ends the turn with
  \<^verbatim>\<open>stop_reason: end_turn\<close>, which maps to STOP. The adapter yields two partial
  responses with these texts, in order, and neither carries a finish reason. The OpenAI
  adapter on the corresponding stream yields the finish reason STOP on the last one.
\<close>

theorem anthropic_stream_without_finish_reason:
  "map response_text
     (yielded (anthropic_generateContentStream
        (\<lambda>model messages system.
           of_list [MessageStart, ContentBlockStart,
                    ContentBlockDelta (TextDelta ''Hel''), ContentBlockDelta (TextDelta ''lo''),
                    ContentBlockStop, MessageDelta (Some ''end_turn''), MessageStop])
        request))
     = [Some ''Hel'', Some ''lo'']
   \<and> map response_finishReason
     (yielded (anthropic_generateContentStream
        (\<lambda>model messages system.
           of_list [MessageStart, ContentBlockStart,
                    ContentBlockDelta (TextDelta ''Hel''), ContentBlockDelta (TextDelta ''lo''),
                    ContentBlockStop, MessageDelta (Some ''end_turn''), MessageStop])
        request))
     = [None, None]
   \<and> anthropic_mapFinishReason (Some ''end_turn'') = STOP
   \<and> map response_finishReason
     (yielded (openai_generateContentStream
        (\<lambda>model messages. of_list [text_event ''Hel'' None, text_event ''lo'' (Some ''stop'')])
        request))
     = [None, Some STOP]"
  by (simp add: anthropic_generateContentStream_def openai_generateContentStream_def
      convertAnthropicStreamChunkToGemini_def response_text_def response_finishReason_def
      model_content_def anthropic_mapFinishReason_def openai_mapFinishReason_def
      chunk_to_gemini_text_event has_delta_text_event partial_response_def truthy_def)

end
